theory Spec2Isabelle
  imports Complex_Main "HOL-Library.AList"
begin

section \<open>JSON values as Python sees them\<close>

text \<open>
  The scripts read every API answer with \<^verbatim>\<open>response.json()\<close> and then branch on
  Python's truthiness and on \<^verbatim>\<open>isinstance\<close>. Numbers are integers here (ids, counts);
  a JSON object is an association list whose first binding of a key is the one read.
\<close>

datatype json =
    JNull
  | JBool bool
  | JInt int
  | JStr string
  | JList "json list"
  | JDict "(string \<times> json) list"

text \<open>\<^verbatim>\<open>bool(x)\<close>, as used by \<^verbatim>\<open>if not data\<close>.\<close>

fun truthy :: "json \<Rightarrow> bool" where
  "truthy JNull = False"
| "truthy (JBool b) = b"
| "truthy (JInt n) = (n \<noteq> 0)"
| "truthy (JStr s) = (s \<noteq> [])"
| "truthy (JList xs) = (xs \<noteq> [])"
| "truthy (JDict d) = (d \<noteq> [])"

text \<open>\<^verbatim>\<open>d.get(k, default)\<close>.\<close>

definition dict_get :: "(string \<times> json) list \<Rightarrow> string \<Rightarrow> json \<Rightarrow> json" where
  "dict_get d k dflt = (case map_of d k of Some v \<Rightarrow> v | None \<Rightarrow> dflt)"

text \<open>
  What \<^verbatim>\<open>list.extend(x)\<close> and \<^verbatim>\<open>len(x)\<close> see of a value: the elements of a list, the
  keys of a dict, the characters of a string; \<open>None\<close> where Python raises TypeError.
\<close>

fun py_iter :: "json \<Rightarrow> json list option" where
  "py_iter (JList xs) = Some xs"
| "py_iter (JDict d) = Some (map (\<lambda>kv. JStr (fst kv)) d)"
| "py_iter (JStr s) = Some (map (\<lambda>c. JStr [c]) s)"
| "py_iter _ = None"

text \<open>\<^verbatim>\<open>str(n)\<close> for the integers the log messages interpolate.\<close>

fun str_nat :: "nat \<Rightarrow> string" where
  "str_nat n =
     (if n < 10 then [''0123456789'' ! n]
      else str_nat (n div 10) @ [''0123456789'' ! (n mod 10)])"

declare str_nat.simps [simp del]

definition str_int :: "int \<Rightarrow> string" where
  "str_int i = (if i < 0 then CHR ''-'' # str_nat (nat (- i)) else str_nat (nat i))"

text \<open>A name between single quotes, as the f-strings of the log messages write it.\<close>

definition quoted :: "string \<Rightarrow> string" where
  "quoted s = CHR 0x27 # s @ [CHR 0x27]"

text \<open>\<^verbatim>\<open>', '.join(xs)\<close>.\<close>

fun join :: "string \<Rightarrow> string list \<Rightarrow> string" where
  "join sep [] = []"
| "join sep [x] = x"
| "join sep (x # y # ys) = x @ sep @ join sep (y # ys)"

section \<open>Errors, outcomes, requests and responses\<close>

datatype error =
    RequestException
  | JSONDecodeError
  | KeyError string
  | TypeError
  | AttributeError
  | GithubException

text \<open>\<^verbatim>\<open>x[k]\<close> with a string key: only a dict can be read so, and the key must be there.\<close>

fun subscript :: "json \<Rightarrow> string \<Rightarrow> error + json" where
  "subscript (JDict d) k = (case map_of d k of Some v \<Rightarrow> Inr v | None \<Rightarrow> Inl (KeyError k))"
| "subscript _ k = Inl TypeError"

text \<open>A list comprehension whose element expression may raise: the first error ends it.\<close>

fun map_err :: "('a \<Rightarrow> error + 'b) \<Rightarrow> 'a list \<Rightarrow> error + 'b list" where
  "map_err f [] = Inr []"
| "map_err f (x # xs) =
     (case f x of
        Inl e \<Rightarrow> Inl e
      | Inr y \<Rightarrow> (case map_err f xs of Inl e \<Rightarrow> Inl e | Inr ys \<Rightarrow> Inr (y # ys)))"

text \<open>
  A call returns a value, raises, or is still running when the fuel given to its
  loops is used up (the \<^verbatim>\<open>while True\<close> loops of the scripts have no bound of their own).
\<close>

datatype 'a outcome = Ok 'a | Raise error | OutOfFuel

text \<open>
  Each migrator holds two sessions, \<^verbatim>\<open>self.source_session\<close> and
  \<^verbatim>\<open>self.target_session\<close>, one per organization and credential.
\<close>

datatype session = Source | Target

record request =
  via :: session
  http_method :: string
  url :: string
  params :: "(string \<times> json) list"
  payload :: "json option"

text \<open>
  A response: the status, the two rate-limit headers (absent or a decimal integer),
  the body as \<^verbatim>\<open>response.json()\<close> reads it (\<open>None\<close>: the body is not JSON and the call
  raises) and \<^verbatim>\<open>response.text\<close>.
\<close>

record response =
  status_code :: int
  remaining_header :: "int option"
  reset_header :: "int option"
  body :: "json option"
  response_text :: string

datatype level = DEBUG | INFO | WARNING | ERROR

text \<open>
  What a run can observe and change outside the interpreter: the remote service
  (\<open>world\<close>), the requests issued so far (oldest first), the log, the clock
  (\<^verbatim>\<open>time.time()\<close>, seconds since the epoch, which \<^verbatim>\<open>time.sleep\<close> advances) and the time
  zone of the process: \<open>utcoffset st t\<close> is the number of seconds by which local time is
  ahead of UTC at the instant \<open>t\<close>.
\<close>

record 'w env =
  world :: 'w
  trace :: "request list"
  log :: "(level \<times> string) list"
  clock :: real
  utcoffset :: "real \<Rightarrow> real"

text \<open>
  The fields of \<^verbatim>\<open>GitHubSecretsMigrator\<close> and \<^verbatim>\<open>GitHubVariablesMigrator\<close> that the
  methods below read or write. The two classes share the text of their transport, of
  the collector and of the repository mapping; \<open>collection_key\<close> says which class an
  object is: \<^verbatim>\<open>'secrets'\<close> or \<^verbatim>\<open>'variables'\<close>, the key its collector looks up.
\<close>

record 'w migrator = "'w env" +
  source_org :: string
  target_org :: string
  collection_key :: string
  rate_limit_remaining :: int
  rate_limit_reset :: "int option"
  target_repo_mapping :: "(json \<times> json) list"
  org_public_key_cache :: "(string \<times> json) list"

text \<open>
  \<^verbatim>\<open>session.request(method, url, **kwargs)\<close> together with the remote service behind
  it: from the service's state and a request to the response (\<open>None\<close>: the call raised
  \<^verbatim>\<open>requests.exceptions.RequestException\<close>) and the service's next state.
\<close>

type_synonym 'w service = "'w \<Rightarrow> request \<Rightarrow> response option \<times> 'w"

definition logger :: "level \<Rightarrow> string \<Rightarrow> ('w, 'm) env_scheme \<Rightarrow> ('w, 'm) env_scheme" where
  "logger lvl msg st = st\<lparr>log := log st @ [(lvl, msg)]\<rparr>"

definition sleep :: "real \<Rightarrow> ('w, 'm) env_scheme \<Rightarrow> ('w, 'm) env_scheme" where
  "sleep d st = st\<lparr>clock := clock st + d\<rparr>"

text \<open>
  \<^verbatim>\<open>datetime.fromtimestamp(t)\<close> and \<^verbatim>\<open>datetime.now()\<close> give naive datetimes in local time. A
  naive datetime is written here as the number of seconds from the naive datetime
  1970-01-01 00:00:00 to it, so that the difference of two of them is the
  \<^verbatim>\<open>total_seconds()\<close> of their \<^verbatim>\<open>timedelta\<close>. The rounding of a datetime to microseconds and
  the years outside 1 to 9999, which \<^verbatim>\<open>fromtimestamp\<close> refuses, are not modelled.
\<close>

definition fromtimestamp :: "('w, 'm) env_scheme \<Rightarrow> real \<Rightarrow> real" where
  "fromtimestamp st t = t + utcoffset st t"

definition datetime_now :: "('w, 'm) env_scheme \<Rightarrow> real" where
  "datetime_now st = fromtimestamp st (clock st)"

section \<open>The transport of the secrets and variables migrators\<close>

text \<open>
  \<^verbatim>\<open>_handle_rate_limit\<close>: both counters are stored after every response; on a 429 or
  with fewer than 10 calls left the waiting time is the difference of the two local
  datetimes \<^verbatim>\<open>datetime.fromtimestamp(self.rate_limit_reset)\<close> and \<^verbatim>\<open>datetime.now()\<close>, plus
  ten seconds, and the thread sleeps when it is positive.
  Interpolations of values that have no rendering here (a datetime, an exception text)
  stay in the message as the source writes them.
\<close>

definition handle_rate_limit :: "response \<Rightarrow> 'w migrator \<Rightarrow> 'w migrator" where
  "handle_rate_limit response st =
     (let remaining = (case remaining_header response of Some n \<Rightarrow> n | None \<Rightarrow> 0);
          reset = (case reset_header response of Some n \<Rightarrow> n | None \<Rightarrow> 0);
          st1 = st\<lparr>rate_limit_remaining := remaining, rate_limit_reset := Some reset\<rparr>
      in if status_code response = 429 \<or> remaining < 10 then
           (let reset_time = fromtimestamp st1 (real_of_int reset);
                wait_time = (reset_time - datetime_now st1) + 10
            in if wait_time > 0 then
                 sleep wait_time
                   (logger WARNING
                      ''Rate limit reached. Waiting {wait_time:.0f} seconds until {reset_time}'' st1)
               else st1)
         else st1)"

text \<open>\<^verbatim>\<open>_make_request\<close>: one call on the session, then the rate-limit handling.\<close>

definition make_request ::
  "'w service \<Rightarrow> request \<Rightarrow> 'w migrator \<Rightarrow> response outcome \<times> 'w migrator" where
  "make_request serve req st =
     (case serve (world st) req of
        (None, w) \<Rightarrow>
          (Raise RequestException,
           logger ERROR (''Request failed for '' @ url req @ '': {e}'')
             (st\<lparr>world := w, trace := trace st @ [req]\<rparr>))
      | (Some response, w) \<Rightarrow>
          (Ok response,
           handle_rate_limit response (st\<lparr>world := w, trace := trace st @ [req]\<rparr>)))"

section \<open>The paginated collector\<close>

definition per_page :: nat where
  "per_page = 100"

definition page_request :: "session \<Rightarrow> string \<Rightarrow> int \<Rightarrow> request" where
  "page_request s u page =
     \<lparr>via = s, http_method = ''GET'', url = u,
      params = [(''page'', JInt page), (''per_page'', JInt (int per_page))], payload = None\<rparr>"

text \<open>
  \<^verbatim>\<open>_get_paginated_data\<close>. The loop is \<^verbatim>\<open>while True\<close>; the first argument is the
  number of iterations the run is given. \<open>key\<close> is the second collection key looked up in
  a wrapper object: \<^verbatim>\<open>'secrets'\<close> in the secrets migrator, \<^verbatim>\<open>'variables'\<close> in the
  variables migrator; the two methods are otherwise the same text.
\<close>

fun paginate ::
  "nat \<Rightarrow> 'w service \<Rightarrow> string \<Rightarrow> session \<Rightarrow> string \<Rightarrow> int \<Rightarrow> json list \<Rightarrow> 'w migrator
     \<Rightarrow> json list outcome \<times> 'w migrator" where
  "paginate 0 serve key s u page all_data st = (OutOfFuel, st)"
| "paginate (Suc fuel) serve key s u page all_data st =
     (case make_request serve (page_request s u page) st of
        (Raise e, st1) \<Rightarrow> (Raise e, st1)
      | (OutOfFuel, st1) \<Rightarrow> (OutOfFuel, st1)
      | (Ok response, st1) \<Rightarrow>
          if status_code response \<noteq> 200 then (Ok all_data, st1)
          else (case body response of
              None \<Rightarrow> (Raise JSONDecodeError, st1)
            | Some data \<Rightarrow>
                if \<not> truthy data then (Ok all_data, st1)
                else (case data of
                    JList xs \<Rightarrow>
                      if length xs < per_page then (Ok (all_data @ xs), st1)
                      else paginate fuel serve key s u (page + 1) (all_data @ xs)
                             (logger DEBUG
                                (''Fetched page '' @ str_int page @ '', total items so far: ''
                                   @ str_nat (length (all_data @ xs))) st1)
                  | JDict d \<Rightarrow>
                      (case py_iter (dict_get d ''repositories'' (dict_get d key (JList []))) of
                         None \<Rightarrow> (Raise TypeError, st1)
                       | Some items \<Rightarrow>
                           if length items < per_page then (Ok (all_data @ items), st1)
                           else paginate fuel serve key s u (page + 1) (all_data @ items)
                                  (logger DEBUG
                                     (''Fetched page '' @ str_int page
                                        @ '', total items so far: ''
                                        @ str_nat (length (all_data @ items))) st1))
                  | _ \<Rightarrow> (Ok all_data, st1))))"

definition get_paginated_data ::
  "nat \<Rightarrow> 'w service \<Rightarrow> string \<Rightarrow> session \<Rightarrow> string \<Rightarrow> 'w migrator
     \<Rightarrow> json list outcome \<times> 'w migrator" where
  "get_paginated_data fuel serve key s u st = paginate fuel serve key s u 1 [] st"

section \<open>Rulesets: the request helper and the repository listing\<close>

text \<open>
  \<^verbatim>\<open>make_api_request\<close> of \<^verbatim>\<open>rulesets.py\<close>: \<^verbatim>\<open>requests.request\<close>, then
  \<^verbatim>\<open>raise_for_status\<close>; every HTTP error status (400 to 599) and every transport failure is
  logged and turned into \<open>None\<close>. The request is tagged with the credential the caller
  names (\<^verbatim>\<open>SOURCE_GITHUB_TOKEN\<close> or \<^verbatim>\<open>TARGET_GITHUB_TOKEN\<close>).
\<close>

definition make_api_request ::
  "'w service \<Rightarrow> string \<Rightarrow> string \<Rightarrow> session \<Rightarrow> (string \<times> json) list \<Rightarrow> json option
     \<Rightarrow> ('w, 'm) env_scheme \<Rightarrow> response option \<times> ('w, 'm) env_scheme" where
  "make_api_request serve meth u token ps js st =
     (let req = \<lparr>via = token, http_method = meth, url = u, params = ps, payload = js\<rparr>;
          st0 = logger DEBUG (''Making '' @ meth @ '' request to '' @ u) st
      in case serve (world st0) req of
           (None, w) \<Rightarrow>
             (None, logger ERROR ''Request failed: {e}''
                      (st0\<lparr>world := w, trace := trace st0 @ [req]\<rparr>))
         | (Some response, w) \<Rightarrow>
             (let st1 = st0\<lparr>world := w, trace := trace st0 @ [req]\<rparr>
              in if 400 \<le> status_code response \<and> status_code response < 600 then
                   (None,
                    if status_code response = 404 then
                      logger INFO (''Resource not found for URL '' @ u
                                     @ '' (404). This may be expected.'') st1
                    else
                      logger ERROR (''Response Body: '' @ response_text response)
                        (logger ERROR (''HTTP Error for URL '' @ u @ '': ''
                                         @ str_int (status_code response)
                                         @ '' {e.response.reason}'') st1))
                 else
                   (Some response,
                    logger DEBUG (''Request successful: '' @ str_int (status_code response))
                      st1)))"

text \<open>\<^verbatim>\<open>[repo['name'] for repo in data]\<close>.\<close>

definition repo_names :: "json \<Rightarrow> error + json list" where
  "repo_names data =
     (case py_iter data of
        None \<Rightarrow> Inl TypeError
      | Some repos \<Rightarrow> map_err (\<lambda>repo. subscript repo ''name'') repos)"

text \<open>
  The \<^verbatim>\<open>while True\<close> loop of \<^verbatim>\<open>get_all_repos\<close>: it ends on a failed request or on a
  falsy page, and on nothing else.
\<close>

fun get_all_repos_loop ::
  "nat \<Rightarrow> 'w service \<Rightarrow> string \<Rightarrow> string \<Rightarrow> session \<Rightarrow> int \<Rightarrow> json list
     \<Rightarrow> ('w, 'm) env_scheme \<Rightarrow> json list outcome \<times> ('w, 'm) env_scheme" where
  "get_all_repos_loop 0 serve org api_url token page repos st = (OutOfFuel, st)"
| "get_all_repos_loop (Suc fuel) serve org api_url token page repos st =
     (case make_api_request serve ''GET'' (api_url @ ''/orgs/'' @ org @ ''/repos'') token
             [(''per_page'', JInt 100), (''page'', JInt page)] None st of
        (None, st1) \<Rightarrow>
          (Ok repos,
           logger ERROR (''Could not fetch repositories for '' @ quoted org @ ''.'') st1)
      | (Some response, st1) \<Rightarrow>
          (case body response of
             None \<Rightarrow> (Raise JSONDecodeError, st1)
           | Some data \<Rightarrow>
               if \<not> truthy data then (Ok repos, st1)
               else (case repo_names data of
                   Inl e \<Rightarrow> (Raise e, st1)
                 | Inr names \<Rightarrow>
                     get_all_repos_loop fuel serve org api_url token (page + 1)
                       (repos @ names) st1)))"

definition get_all_repos ::
  "nat \<Rightarrow> 'w service \<Rightarrow> string \<Rightarrow> string \<Rightarrow> session
     \<Rightarrow> ('w, 'm) env_scheme \<Rightarrow> json list outcome \<times> ('w, 'm) env_scheme" where
  "get_all_repos fuel serve org api_url token st =
     (case get_all_repos_loop fuel serve org api_url token 1 []
             (logger INFO (''Fetching all repositories for organization '' @ quoted org
                             @ ''...'') st) of
        (Ok repos, st1) \<Rightarrow>
          (Ok repos,
           logger INFO (''Found '' @ str_nat (length repos) @ '' repositories in ''
                          @ quoted org @ ''.'') st1)
      | (other, st1) \<Rightarrow> (other, st1))"

section \<open>Secrets and variables: the repository mapping\<close>

definition base_url :: string where
  "base_url = ''https://api.github.com''"

text \<open>The endpoints the methods below address, as their f-strings build them.\<close>

definition org_repos_url :: "string \<Rightarrow> string" where
  "org_repos_url org = base_url @ ''/orgs/'' @ org @ ''/repos''"

definition org_secret_url :: "string \<Rightarrow> string \<Rightarrow> string" where
  "org_secret_url org secret_name =
     base_url @ ''/orgs/'' @ org @ ''/actions/secrets/'' @ secret_name"

definition org_public_key_url :: "string \<Rightarrow> string" where
  "org_public_key_url org = base_url @ ''/orgs/'' @ org @ ''/actions/secrets/public-key''"

definition org_variables_url :: "string \<Rightarrow> string" where
  "org_variables_url org = base_url @ ''/orgs/'' @ org @ ''/actions/variables''"

definition org_variable_url :: "string \<Rightarrow> string \<Rightarrow> string" where
  "org_variable_url org var_name =
     base_url @ ''/orgs/'' @ org @ ''/actions/variables/'' @ var_name"

text \<open>Sequencing of calls that may raise or run out of fuel.\<close>

definition and_then ::
  "'a outcome \<times> 's \<Rightarrow> ('a \<Rightarrow> 's \<Rightarrow> 'b outcome \<times> 's) \<Rightarrow> 'b outcome \<times> 's" where
  "and_then m f =
     (case m of
        (Ok x, st) \<Rightarrow> f x st
      | (Raise e, st) \<Rightarrow> (Raise e, st)
      | (OutOfFuel, st) \<Rightarrow> (OutOfFuel, st))"

text \<open>\<^verbatim>\<open>get_organization_repositories\<close>.\<close>

definition get_organization_repositories ::
  "nat \<Rightarrow> 'w service \<Rightarrow> string \<Rightarrow> session \<Rightarrow> 'w migrator
     \<Rightarrow> json list outcome \<times> 'w migrator" where
  "get_organization_repositories fuel serve org s st =
     and_then
       (get_paginated_data fuel serve (collection_key st) s
          (org_repos_url org)
          (logger INFO (''Fetching repositories for organization: '' @ org) st))
       (\<lambda>repos st1.
          (Ok repos,
           logger INFO (''Found '' @ str_nat (length repos) @ '' repositories in '' @ org)
             st1))"

text \<open>
  A dict key must be hashable: a list or a dict as \<^verbatim>\<open>repo['name']\<close> raises TypeError.
  (Python also identifies the keys \<^verbatim>\<open>True\<close> and \<^verbatim>\<open>1\<close>; they are kept apart here, and
  every lookup below is by a string.)
\<close>

fun hashable :: "json \<Rightarrow> bool" where
  "hashable (JList xs) = False"
| "hashable (JDict d) = False"
| "hashable _ = True"

text \<open>
  The loop of \<^verbatim>\<open>build_target_repo_mapping\<close>: the mapping is updated in place, so an
  error leaves the entries made before it.
\<close>

fun add_repos :: "json list \<Rightarrow> (json \<times> json) list \<Rightarrow> error option \<times> (json \<times> json) list" where
  "add_repos [] m = (None, m)"
| "add_repos (JDict d # repos) m =
     (case (map_of d ''name'', map_of d ''id'') of
        (Some n, Some i) \<Rightarrow>
          if hashable n then add_repos repos (AList.update n i m) else (Some TypeError, m)
      | _ \<Rightarrow> add_repos repos m)"
| "add_repos (repo # repos) m = add_repos repos m"

definition build_target_repo_mapping ::
  "nat \<Rightarrow> 'w service \<Rightarrow> 'w migrator \<Rightarrow> unit outcome \<times> 'w migrator" where
  "build_target_repo_mapping fuel serve st =
     (if target_repo_mapping st \<noteq> [] then (Ok (), st)
      else
        and_then
          (get_organization_repositories fuel serve (target_org st) Target
             (logger INFO ''Building target organization repository mapping...'' st))
          (\<lambda>target_repos st1.
             case add_repos target_repos (target_repo_mapping st1) of
               (Some e, m) \<Rightarrow> (Raise e, st1\<lparr>target_repo_mapping := m\<rparr>)
             | (None, m) \<Rightarrow>
                 (Ok (),
                  logger INFO (''Built mapping for '' @ str_nat (length m)
                                 @ '' target repositories'')
                    (st1\<lparr>target_repo_mapping := m\<rparr>))))"

text \<open>The two lists that the loop of \<^verbatim>\<open>get_target_repository_ids\<close> builds.\<close>

definition found_ids :: "(json \<times> json) list \<Rightarrow> string list \<Rightarrow> json list" where
  "found_ids m names = List.map_filter (\<lambda>n. map_of m (JStr n)) names"

definition missing_repos :: "(json \<times> json) list \<Rightarrow> string list \<Rightarrow> string list" where
  "missing_repos m names = filter (\<lambda>n. map_of m (JStr n) = None) names"

definition get_target_repository_ids ::
  "nat \<Rightarrow> 'w service \<Rightarrow> string list \<Rightarrow> 'w migrator \<Rightarrow> json list outcome \<times> 'w migrator" where
  "get_target_repository_ids fuel serve names st =
     and_then (build_target_repo_mapping fuel serve st)
       (\<lambda>_ st1.
          (Ok (found_ids (target_repo_mapping st1) names),
           if missing_repos (target_repo_mapping st1) names \<noteq> [] then
             logger WARNING
               (''Repositories not found in target org: ''
                  @ join '', '' (missing_repos (target_repo_mapping st1) names)) st1
           else st1))"

section \<open>Secrets: existence probe, public key, creation\<close>

text \<open>
  \<^verbatim>\<open>str.strip()\<close> and the test \<^verbatim>\<open>not value.strip()\<close>. A \<open>char\<close> stands for a code point below
  256; \<open>is_space\<close> holds of those that \<^verbatim>\<open>str.isspace()\<close> accepts: U+0009 to U+000D, U+001C
  to U+0020, U+0085 and U+00A0. Text with a code point from 256 on is outside the model.
\<close>

definition is_space :: "char \<Rightarrow> bool" where
  "is_space c =
     (c \<in> set [CHR '' '', CHR 0x09, CHR 0x0A, CHR 0x0B, CHR 0x0C, CHR 0x0D,
               CHR 0x1C, CHR 0x1D, CHR 0x1E, CHR 0x1F, CHR 0x85, CHR 0xA0])"

definition strip :: "string \<Rightarrow> string" where
  "strip s = rev (dropWhile is_space (rev (dropWhile is_space s)))"

text \<open>The text that follows the status in the error log of a refused request.\<close>

definition error_detail :: "response \<Rightarrow> string" where
  "error_detail response =
     (case body response of
        Some (JDict d) \<Rightarrow>
          (case dict_get d ''message'' (JStr ''Unknown error'') of
             JStr m \<Rightarrow> m
           | _ \<Rightarrow> ''{error_detail}'')
      | _ \<Rightarrow> response_text response)"

definition check_organization_secret_exists ::
  "'w service \<Rightarrow> string \<Rightarrow> string \<Rightarrow> session \<Rightarrow> 'w migrator \<Rightarrow> bool outcome \<times> 'w migrator" where
  "check_organization_secret_exists serve org secret_name s st =
     and_then
       (make_request serve
          \<lparr>via = s, http_method = ''GET'',
           url = org_secret_url org secret_name,
           params = [], payload = None\<rparr>
          (logger INFO (''Checking if organization secret '' @ quoted secret_name
                          @ '' exists in '' @ org) st))
       (\<lambda>response st1.
          if status_code response = 200 then
            (Ok True,
             logger INFO (''Organization secret '' @ quoted secret_name
                            @ '' already exists in '' @ org @ '' - will skip'') st1)
          else if status_code response = 404 then
            (Ok False,
             logger INFO (''Organization secret '' @ quoted secret_name
                            @ '' does not exist in '' @ org @ '' - will create'') st1)
          else
            (Ok False,
             logger WARNING (''Unexpected response when checking org secret '' @ secret_name
                               @ '': '' @ str_int (status_code response)) st1))"

text \<open>
  \<^verbatim>\<open>get_organization_public_key\<close>: the cached key, or the answer of the public-key
  endpoint, cached when it is JSON; \<open>None\<close> on any other status or body.
\<close>

definition get_organization_public_key ::
  "'w service \<Rightarrow> string \<Rightarrow> session \<Rightarrow> 'w migrator \<Rightarrow> json option outcome \<times> 'w migrator" where
  "get_organization_public_key serve org s st =
     (case map_of (org_public_key_cache st) org of
        Some k \<Rightarrow> (Ok (Some k), st)
      | None \<Rightarrow>
          and_then
            (make_request serve
               \<lparr>via = s, http_method = ''GET'',
                url = org_public_key_url org,
                params = [], payload = None\<rparr> st)
            (\<lambda>response st1.
               if status_code response \<noteq> 200 then
                 (Ok None,
                  logger ERROR (''Failed to fetch org public key for '' @ org @ '': ''
                                  @ str_int (status_code response)) st1)
               else (case body response of
                   None \<Rightarrow>
                     (Ok None,
                      logger ERROR (''Error parsing org public key for '' @ org @ '': {e}'')
                        st1)
                 | Some public_key \<Rightarrow>
                     (Ok (Some public_key),
                      st1\<lparr>org_public_key_cache :=
                             AList.update org public_key (org_public_key_cache st1)\<rparr>))))"

text \<open>
  The two literals of the placeholder discipline, and the test on the exported value.
\<close>

definition encrypted_marker :: string where
  "encrypted_marker = ''[ENCRYPTED_SECRET_VALUE]''"

definition placeholder_value :: string where
  "placeholder_value = ''PLACEHOLDER_VALUE_SET_MANUALLY''"

definition no_actual_value :: "string \<Rightarrow> bool" where
  "no_actual_value v = (v = encrypted_marker \<or> strip v = [])"

text \<open>The end of the success message: the visibility and, when selected, the name count.\<close>

definition visibility_info :: "string \<Rightarrow> string list \<Rightarrow> string" where
  "visibility_info visibility selected_repo_names =
     '' (visibility: '' @ visibility
       @ (if visibility = ''selected'' then
            '', repositories: '' @ str_nat (length selected_repo_names) @ '')''
          else '')'')"

text \<open>
  The branch both create methods and the update method share: with visibility
  \<^verbatim>\<open>'selected'\<close> and a non-empty name list the names are translated; the ids are added
  when there are some, and the visibility becomes \<^verbatim>\<open>'private'\<close> when there are none.
  \<open>what\<close> is the word of the warning, \<^verbatim>\<open>secret\<close> or \<^verbatim>\<open>variable\<close>.
\<close>

definition set_selected_repositories ::
  "nat \<Rightarrow> 'w service \<Rightarrow> string \<Rightarrow> string \<Rightarrow> string \<Rightarrow> string list \<Rightarrow> (string \<times> json) list
     \<Rightarrow> 'w migrator \<Rightarrow> (string \<times> json) list outcome \<times> 'w migrator" where
  "set_selected_repositories fuel serve what name visibility selected_repo_names data st =
     (if visibility = ''selected'' \<and> selected_repo_names \<noteq> [] then
        and_then (get_target_repository_ids fuel serve selected_repo_names st)
          (\<lambda>target_repo_ids st1.
             if target_repo_ids \<noteq> [] then
               (Ok (AList.update ''selected_repository_ids'' (JList target_repo_ids) data), st1)
             else
               (Ok (AList.update ''visibility'' (JStr ''private'') data),
                logger WARNING (''No valid repositories found for '' @ what @ '' '' @ name
                                  @ '', setting visibility to '' @ quoted ''private'') st1))
      else (Ok data, st))"

text \<open>
  \<^verbatim>\<open>create_organization_secret\<close>, in two parts. The result is \<open>None\<close> for a skipped
  secret, else \<open>Some True\<close> or \<open>Some False\<close>. \<open>encrypt\<close> stands for \<^verbatim>\<open>encrypt_secret\<close>,
  the sealed box of the target's public key (\<open>None\<close>: it raised); the box draws fresh
  randomness on every call, which a function of the value and the key does not show.

  First the second half of the method, from the comment \<^verbatim>\<open># Get public key for encryption\<close>
  to its end, for the value that the first half has settled.
\<close>

definition put_organization_secret ::
  "nat \<Rightarrow> 'w service \<Rightarrow> (string \<Rightarrow> json \<Rightarrow> string option) \<Rightarrow> string \<Rightarrow> string \<Rightarrow> string
     \<Rightarrow> string \<Rightarrow> string list \<Rightarrow> session \<Rightarrow> 'w migrator
     \<Rightarrow> bool option outcome \<times> 'w migrator" where
  "put_organization_secret fuel serve encrypt org name value visibility selected_repo_names s st =
     and_then (get_organization_public_key serve org s st)
       (\<lambda>public_key_info st3.
          case public_key_info of
            None \<Rightarrow>
              (Ok (Some False),
               logger ERROR (''Failed to get public key for organization '' @ org) st3)
          | Some info \<Rightarrow>
              if \<not> truthy info then
                (Ok (Some False),
                 logger ERROR (''Failed to get public key for organization '' @ org) st3)
              else (case subscript info ''key'' of
                  Inl e \<Rightarrow>
                    (Ok (Some False),
                     logger ERROR (''Failed to encrypt secret '' @ name @ '': {e}'') st3)
                | Inr k \<Rightarrow>
                    (case encrypt value k of
                       None \<Rightarrow>
                         (Ok (Some False),
                          logger ERROR (''Failed to encrypt secret '' @ name @ '': {e}'')
                            (logger ERROR ''Error encrypting secret: {e}'' st3))
                     | Some encrypted_value \<Rightarrow>
                         (case subscript info ''key_id'' of
                            Inl e \<Rightarrow> (Raise e, st3)
                          | Inr key_id \<Rightarrow>
                              and_then
                                (set_selected_repositories fuel serve ''secret'' name
                                   visibility selected_repo_names
                                   [(''encrypted_value'', JStr encrypted_value),
                                    (''key_id'', key_id),
                                    (''visibility'', JStr visibility)] st3)
                                (\<lambda>data st4.
                                   and_then
                                     (make_request serve
                                        \<lparr>via = s, http_method = ''PUT'',
                                         url = org_secret_url org name,
                                         params = [], payload = Some (JDict data)\<rparr> st4)
                                     (\<lambda>response st5.
                                        if status_code response = 201
                                           \<or> status_code response = 204 then
                                          (Ok (Some True),
                                           logger INFO
                                             (''Created/Updated''
                                                @ (if value = placeholder_value
                                                   then '' [PLACEHOLDER]'' else [])
                                                @ '' organization secret: '' @ name
                                                @ visibility_info visibility
                                                    selected_repo_names) st5)
                                        else
                                          (Ok (Some False),
                                           logger ERROR
                                             (''Failed to create organization secret ''
                                                @ name @ '': ''
                                                @ str_int (status_code response)
                                                @ '' - '' @ error_detail response)
                                             st5)))))))"

text \<open>
  The first half: the existence probe, then the choice between the exported value and the
  placeholder.
\<close>

definition create_organization_secret ::
  "nat \<Rightarrow> 'w service \<Rightarrow> (string \<Rightarrow> json \<Rightarrow> string option) \<Rightarrow> string \<Rightarrow> string \<Rightarrow> string
     \<Rightarrow> string \<Rightarrow> string list \<Rightarrow> session \<Rightarrow> bool \<Rightarrow> 'w migrator
     \<Rightarrow> bool option outcome \<times> 'w migrator" where
  "create_organization_secret fuel serve encrypt org name value visibility
       selected_repo_names s create_placeholder st =
     and_then (check_organization_secret_exists serve org name s st)
       (\<lambda>exists st1.
          if exists then
            (Ok None,
             logger INFO (''Organization secret '' @ quoted name
                            @ '' already exists - skipping'') st1)
          else if no_actual_value value then
            (if create_placeholder then
               put_organization_secret fuel serve encrypt org name placeholder_value
                 visibility selected_repo_names s
                 (logger INFO (''Creating secret '' @ name
                                 @ '' with placeholder value (to be set manually later)'') st1)
             else
               (Ok (Some False),
                logger WARNING (''Cannot create secret '' @ name
                                  @ '' - no actual value provided'') st1))
          else
            put_organization_secret fuel serve encrypt org name value visibility
              selected_repo_names s st1)"

section \<open>Variables: creation and update\<close>

text \<open>
  \<^verbatim>\<open>update_organization_variable\<close>: a PATCH of the variable with the same payload rules.
\<close>

definition update_organization_variable ::
  "nat \<Rightarrow> 'w service \<Rightarrow> string \<Rightarrow> string \<Rightarrow> string \<Rightarrow> string \<Rightarrow> string list \<Rightarrow> session
     \<Rightarrow> 'w migrator \<Rightarrow> bool outcome \<times> 'w migrator" where
  "update_organization_variable fuel serve org name value visibility selected_repo_names s st =
     and_then
       (set_selected_repositories fuel serve ''variable'' name visibility selected_repo_names
          [(''name'', JStr name), (''value'', JStr value), (''visibility'', JStr visibility)]
          st)
       (\<lambda>data st1.
          and_then
            (make_request serve
               \<lparr>via = s, http_method = ''PATCH'',
                url = org_variable_url org name,
                params = [], payload = Some (JDict data)\<rparr> st1)
            (\<lambda>response st2.
               if status_code response = 204 then
                 (Ok True,
                  logger INFO (''Updated organization variable: '' @ name
                                 @ visibility_info visibility selected_repo_names) st2)
               else
                 (Ok False,
                  logger ERROR (''Failed to update organization variable '' @ name @ '': ''
                                  @ str_int (status_code response) @ '' - ''
                                  @ error_detail response) st2)))"

text \<open>
  \<^verbatim>\<open>create_organization_variable\<close>: no probe; a POST, and on 409 the update above.
\<close>

definition create_organization_variable ::
  "nat \<Rightarrow> 'w service \<Rightarrow> string \<Rightarrow> string \<Rightarrow> string \<Rightarrow> string \<Rightarrow> string list \<Rightarrow> session
     \<Rightarrow> 'w migrator \<Rightarrow> bool outcome \<times> 'w migrator" where
  "create_organization_variable fuel serve org name value visibility selected_repo_names s st =
     and_then
       (set_selected_repositories fuel serve ''variable'' name visibility selected_repo_names
          [(''name'', JStr name), (''value'', JStr value), (''visibility'', JStr visibility)]
          st)
       (\<lambda>data st1.
          and_then
            (make_request serve
               \<lparr>via = s, http_method = ''POST'',
                url = org_variables_url org,
                params = [], payload = Some (JDict data)\<rparr> st1)
            (\<lambda>response st2.
               if status_code response = 201 then
                 (Ok True,
                  logger INFO (''Created organization variable: '' @ name
                                 @ visibility_info visibility selected_repo_names) st2)
               else if status_code response = 409 then
                 update_organization_variable fuel serve org name value visibility
                   selected_repo_names s
                   (logger INFO (''Organization variable already exists, updating: '' @ name)
                      st2)
               else
                 (Ok False,
                  logger ERROR (''Failed to create organization variable '' @ name @ '': ''
                                  @ str_int (status_code response) @ '' - ''
                                  @ error_detail response) st2)))"

section \<open>Webhooks: export and import through PyGithub\<close>

text \<open>
  \<^verbatim>\<open>migrate_webhooks.py\<close> talks to GitHub through the PyGithub library, with one client
  per organization (\<^verbatim>\<open>self.source_github_api\<close>, \<^verbatim>\<open>self.target_github_api\<close>). The calls it
  makes are \<^verbatim>\<open>get_repo\<close> on a client, and \<^verbatim>\<open>get_hooks\<close> and \<^verbatim>\<open>create_hook\<close> on a repository
  object; a repository object is written as the client it came from and the full name it
  was fetched by. A hook object is read through \<^verbatim>\<open>config\<close>, \<^verbatim>\<open>events\<close> and \<^verbatim>\<open>active\<close>.
\<close>

record hook =
  config :: "(string \<times> json) list"
  events :: json
  active :: bool

datatype gh_call =
    Get_repo string
  | Get_hooks string
  | Create_hook string string "(string \<times> json) list" json json

text \<open>
  The library together with the remote service behind it. Each call returns or raises:
  \<^verbatim>\<open>get_repo\<close> and \<^verbatim>\<open>create_hook\<close> answer with the exception raised, if any; \<^verbatim>\<open>get_hooks\<close>
  stands for the listing and its evaluation (\<^verbatim>\<open>totalCount\<close>, \<^verbatim>\<open>list\<close>, iteration), which
  answers with the hooks or the exception.
\<close>

record 'w github =
  get_repo :: "'w \<Rightarrow> session \<Rightarrow> string \<Rightarrow> error option \<times> 'w"
  get_hooks :: "'w \<Rightarrow> session \<Rightarrow> string \<Rightarrow> (error + hook list) \<times> 'w"
  create_hook ::
    "'w \<Rightarrow> session \<Rightarrow> string \<Rightarrow> string \<Rightarrow> (string \<times> json) list \<Rightarrow> json \<Rightarrow> json
       \<Rightarrow> error option \<times> 'w"

text \<open>
  What the webhook migrator holds beside the environment: the library calls made so far
  (oldest first, each with its client) and \<^verbatim>\<open>self.migration_results\<close>, a list of dicts.
\<close>

record 'w webhook_migrator = "'w env" +
  calls :: "(session \<times> gh_call) list"
  migration_results :: "(string \<times> json) list list"

text \<open>
  \<^verbatim>\<open>_add_migration_result\<close>. The date of a result is kept as the format that \<^verbatim>\<open>strftime\<close>
  is given; \<open>src_org\<close> and \<open>tgt_org\<close> stand for \<^verbatim>\<open>self.source_org\<close> and
  \<^verbatim>\<open>self.target_org\<close>.
\<close>

definition add_migration_result ::
  "string \<Rightarrow> string \<Rightarrow> string \<Rightarrow> string \<Rightarrow> json \<Rightarrow> json \<Rightarrow> string \<Rightarrow> string
     \<Rightarrow> 'w webhook_migrator \<Rightarrow> 'w webhook_migrator" where
  "add_migration_result src_org tgt_org source_repo target_repo webhook_url evs status reason st =
     st\<lparr>migration_results := migration_results st @
          [[(''source_org'', JStr src_org),
            (''source_repo'', JStr source_repo),
            (''target_org'', JStr tgt_org),
            (''target_repo'', JStr target_repo),
            (''webhook_url'', webhook_url),
            (''events'', evs),
            (''status'', JStr status),
            (''reason'', JStr reason),
            (''migration_date'', JStr ''%Y-%m-%d %H:%M:%S'')]]\<rparr>"

text \<open>
  \<^verbatim>\<open>_get_repository\<close>: the repository object, or \<open>None\<close> after a \<^verbatim>\<open>GithubException\<close>; any
  other exception is not caught.
\<close>

definition get_repository ::
  "'w github \<Rightarrow> session \<Rightarrow> string \<Rightarrow> string \<Rightarrow> 'w webhook_migrator
     \<Rightarrow> (session \<times> string) option outcome \<times> 'w webhook_migrator" where
  "get_repository gh github_api org repo_name st =
     (let repo_full_name = org @ ''/'' @ repo_name;
          st1 = logger INFO (''Fetching repository: '' @ repo_full_name) st
      in case get_repo gh (world st1) github_api repo_full_name of
           (None, w) \<Rightarrow>
             (Ok (Some (github_api, repo_full_name)),
              logger INFO (''Repository found: '' @ repo_full_name)
                (st1\<lparr>world := w,
                      calls := calls st1 @ [(github_api, Get_repo repo_full_name)]\<rparr>))
         | (Some e, w) \<Rightarrow>
             if e = GithubException then
               (Ok None,
                logger ERROR (''Could not find repository: '' @ repo_full_name
                                @ ''. Error: {e}'')
                  (st1\<lparr>world := w,
                        calls := calls st1 @ [(github_api, Get_repo repo_full_name)]\<rparr>))
             else
               (Raise e,
                st1\<lparr>world := w,
                      calls := calls st1 @ [(github_api, Get_repo repo_full_name)]\<rparr>))"

text \<open>\<^verbatim>\<open>_get_webhooks\<close>: the hooks of a repository, or the empty list after a \<^verbatim>\<open>GithubException\<close>.\<close>

definition get_webhooks ::
  "'w github \<Rightarrow> session \<times> string \<Rightarrow> string \<Rightarrow> 'w webhook_migrator
     \<Rightarrow> hook list outcome \<times> 'w webhook_migrator" where
  "get_webhooks gh gh_repo repo_full_name st =
     (let st1 = logger INFO (''Fetching webhooks from '' @ repo_full_name @ ''...'') st
      in case get_hooks gh (world st1) (fst gh_repo) (snd gh_repo) of
           (Inr hooks, w) \<Rightarrow>
             (Ok hooks,
              logger INFO (''Found '' @ str_nat (length hooks)
                             @ '' webhook(s) in the repository.'')
                (st1\<lparr>world := w,
                      calls := calls st1 @ [(fst gh_repo, Get_hooks (snd gh_repo))]\<rparr>))
         | (Inl e, w) \<Rightarrow>
             if e = GithubException then
               (Ok [],
                logger ERROR ''Failed to fetch webhooks from repository: {e}''
                  (st1\<lparr>world := w,
                        calls := calls st1 @ [(fst gh_repo, Get_hooks (snd gh_repo))]\<rparr>))
             else
               (Raise e,
                st1\<lparr>world := w,
                      calls := calls st1 @ [(fst gh_repo, Get_hooks (snd gh_repo))]\<rparr>))"

text \<open>The entry that \<^verbatim>\<open>export_webhooks\<close> writes for an active hook.\<close>

definition webhook_info :: "hook \<Rightarrow> json" where
  "webhook_info h =
     JDict [(''url'', dict_get (config h) ''url'' JNull),
            (''content_type'', dict_get (config h) ''content_type'' (JStr ''json'')),
            (''insecure_ssl'', dict_get (config h) ''insecure_ssl'' (JStr ''0'')),
            (''events'', events h),
            (''active'', JBool (active h))]"

text \<open>The log lines of the loop over the hooks of one repository.\<close>

fun log_exported :: "hook list \<Rightarrow> ('w, 'm) env_scheme \<Rightarrow> ('w, 'm) env_scheme" where
  "log_exported [] st = st"
| "log_exported (h # hs) st =
     log_exported hs
       (logger INFO (if active h then ''Exported webhook: {url}''
                     else ''Skipped inactive webhook: {url}'') st)"

text \<open>
  The loop of \<^verbatim>\<open>export_webhooks\<close> over the repository mappings read from the CSV file,
  each a source and a target repository name; \<open>acc\<close> is \<^verbatim>\<open>exported_data['repositories']\<close>.
\<close>

fun export_repositories ::
  "'w github \<Rightarrow> string \<Rightarrow> (string \<times> string) list \<Rightarrow> (string \<times> json) list
     \<Rightarrow> 'w webhook_migrator \<Rightarrow> (string \<times> json) list outcome \<times> 'w webhook_migrator" where
  "export_repositories gh src_org [] acc st = (Ok acc, st)"
| "export_repositories gh src_org ((source_repo, target_repo) # repositories) acc st =
     (case get_repository gh Source src_org source_repo st of
        (Ok None, st1) \<Rightarrow>
          export_repositories gh src_org repositories acc
            (logger ERROR (''Skipping '' @ source_repo @ '' - could not access repository'')
               st1)
      | (Ok (Some source_gh_repo), st1) \<Rightarrow>
          (case get_webhooks gh source_gh_repo (src_org @ ''/'' @ source_repo) st1 of
             (Ok source_hooks, st2) \<Rightarrow>
               (let webhook_data = map webhook_info (filter active source_hooks)
                in export_repositories gh src_org repositories
                     (AList.update source_repo
                        (JDict [(''target_repo'', JStr target_repo),
                                (''webhooks'', JList webhook_data)]) acc)
                     (logger INFO (''Exported '' @ str_nat (length webhook_data)
                                     @ '' active webhooks from '' @ source_repo)
                        (log_exported source_hooks st2)))
           | (Raise e, st2) \<Rightarrow> (Raise e, st2)
           | (OutOfFuel, st2) \<Rightarrow> (OutOfFuel, st2))
      | (Raise e, st1) \<Rightarrow> (Raise e, st1)
      | (OutOfFuel, st1) \<Rightarrow> (OutOfFuel, st1))"

text \<open>
  \<^verbatim>\<open>export_webhooks\<close>, from the repository mappings that \<^verbatim>\<open>read_repositories_from_csv\<close>
  returned to the data that is written to the export file (\<open>None\<close>: nothing is written).
  The file system is not modelled: the export file is taken to be writable.
\<close>

definition export_webhooks ::
  "'w github \<Rightarrow> string \<Rightarrow> string \<Rightarrow> (string \<times> string) list \<Rightarrow> 'w webhook_migrator
     \<Rightarrow> json option outcome \<times> 'w webhook_migrator" where
  "export_webhooks gh src_org tgt_org repositories st =
     (let st0 = logger INFO ''Starting webhook export process...'' st
      in if repositories = [] then
           (Ok None, logger ERROR ''No valid repositories found in CSV file.'' st0)
         else
           (case export_repositories gh src_org repositories [] st0 of
              (Ok repos, st1) \<Rightarrow>
                (Ok (Some (JDict [(''export_date'', JStr ''%Y-%m-%d %H:%M:%S''),
                                  (''source_org'', JStr src_org),
                                  (''target_org'', JStr tgt_org),
                                  (''repositories'', JDict repos)])),
                 logger INFO (''Total repositories processed: '' @ str_nat (length repos))
                   (logger INFO ''Webhooks exported successfully to {WEBHOOKS_EXPORT_FILE}''
                      st1))
            | (Raise e, st1) \<Rightarrow> (Raise e, st1)
            | (OutOfFuel, st1) \<Rightarrow> (OutOfFuel, st1)))"

text \<open>
  Python identifies the set elements \<^verbatim>\<open>True\<close> and \<^verbatim>\<open>1\<close>, and \<^verbatim>\<open>False\<close> and \<^verbatim>\<open>0\<close>: \<open>py_key\<close>
  maps a value to the representative under which a set holds it.
\<close>

fun py_key :: "json \<Rightarrow> json" where
  "py_key (JBool b) = JInt (if b then 1 else 0)"
| "py_key x = x"

text \<open>\<^verbatim>\<open>x in s\<close> for a set \<open>s\<close> given by its elements.\<close>

definition in_set :: "json \<Rightarrow> json list \<Rightarrow> bool" where
  "in_set x s = (py_key x \<in> set (map py_key s))"

text \<open>
  The inner loop of \<^verbatim>\<open>import_webhooks\<close>, over the exported webhooks of one repository.
  \<open>existing_target_hooks\<close> holds the elements of the set of that name. The fields of a
  webhook are read by subscript, in the order of the source; a missing field raises.
\<close>

fun import_hooks ::
  "'w github \<Rightarrow> string \<Rightarrow> string \<Rightarrow> string \<Rightarrow> string \<Rightarrow> session \<times> string \<Rightarrow> json list
     \<Rightarrow> json list \<Rightarrow> 'w webhook_migrator \<Rightarrow> unit outcome \<times> 'w webhook_migrator" where
  "import_hooks gh src_org tgt_org source_repo target_repo target_gh_repo
       existing_target_hooks [] st = (Ok (), st)"
| "import_hooks gh src_org tgt_org source_repo target_repo target_gh_repo
       existing_target_hooks (webhook # webhooks) st =
     (case subscript webhook ''url'' of
        Inl e \<Rightarrow> (Raise e, st)
      | Inr webhook_url \<Rightarrow>
          if \<not> hashable webhook_url then (Raise TypeError, st)
          else if in_set webhook_url existing_target_hooks then
            (case subscript webhook ''events'' of
               Inl e \<Rightarrow>
                 (Raise e,
                  logger WARNING ''Webhook already exists in target: {webhook_url}'' st)
             | Inr evs \<Rightarrow>
                 import_hooks gh src_org tgt_org source_repo target_repo target_gh_repo
                   existing_target_hooks webhooks
                   (add_migration_result src_org tgt_org source_repo target_repo webhook_url
                      evs ''SKIPPED'' ''Webhook already exists in target''
                      (logger WARNING ''Webhook already exists in target: {webhook_url}''
                         st)))
          else
            (case subscript webhook ''content_type'' of
               Inl e \<Rightarrow> (Raise e, st)
             | Inr content_type \<Rightarrow>
            (case subscript webhook ''insecure_ssl'' of
               Inl e \<Rightarrow> (Raise e, st)
             | Inr insecure_ssl \<Rightarrow>
            (case subscript webhook ''events'' of
               Inl e \<Rightarrow> (Raise e, st)
             | Inr evs \<Rightarrow>
            (case subscript webhook ''active'' of
               Inl e \<Rightarrow> (Raise e, st)
             | Inr act \<Rightarrow>
                 (let new_config = [(''url'', webhook_url),
                                    (''content_type'', content_type),
                                    (''insecure_ssl'', insecure_ssl)];
                      c = (fst target_gh_repo,
                           Create_hook (snd target_gh_repo) ''web'' new_config evs act)
                  in case create_hook gh (world st) (fst target_gh_repo) (snd target_gh_repo)
                            ''web'' new_config evs act of
                       (None, w) \<Rightarrow>
                         import_hooks gh src_org tgt_org source_repo target_repo
                           target_gh_repo existing_target_hooks webhooks
                           (add_migration_result src_org tgt_org source_repo target_repo
                              webhook_url evs ''SUCCESS'' []
                              (logger INFO ''Successfully imported webhook: {webhook_url}''
                                 (st\<lparr>world := w, calls := calls st @ [c]\<rparr>)))
                     | (Some e, w) \<Rightarrow>
                         if e = GithubException then
                           import_hooks gh src_org tgt_org source_repo target_repo
                             target_gh_repo existing_target_hooks webhooks
                             (add_migration_result src_org tgt_org source_repo target_repo
                                webhook_url evs ''FAILED'' ''{e}''
                                (logger ERROR
                                   ''Failed to import webhook {webhook_url}: {e}''
                                   (st\<lparr>world := w, calls := calls st @ [c]\<rparr>)))
                         else (Raise e, st\<lparr>world := w, calls := calls st @ [c]\<rparr>)))))))"

text \<open>\<^verbatim>\<open>{h.config.get('url') for h in hooks}\<close>, as the list of its elements.\<close>

definition hook_urls :: "hook list \<Rightarrow> json list" where
  "hook_urls hooks = map (\<lambda>h. dict_get (config h) ''url'' JNull) hooks"

text \<open>
  The outer loop of \<^verbatim>\<open>import_webhooks\<close>, over the items of
  \<^verbatim>\<open>exported_data['repositories']\<close>. The export file is taken as \<^verbatim>\<open>export_webhooks\<close>
  writes it: for each source repository the name of the target repository and the list
  of the exported webhooks. The listing of the target's hooks is not guarded: an
  exception there ends the import.
\<close>

fun import_repositories ::
  "'w github \<Rightarrow> string \<Rightarrow> string \<Rightarrow> (string \<times> string \<times> json list) list
     \<Rightarrow> 'w webhook_migrator \<Rightarrow> unit outcome \<times> 'w webhook_migrator" where
  "import_repositories gh src_org tgt_org [] st = (Ok (), st)"
| "import_repositories gh src_org tgt_org ((source_repo, target_repo, webhooks) # items) st =
     (if webhooks = [] then
        import_repositories gh src_org tgt_org items
          (logger INFO (''No webhooks to import for '' @ source_repo @ '' -> '' @ target_repo)
             st)
      else
        (case get_repository gh Target tgt_org target_repo st of
           (Ok None, st1) \<Rightarrow>
             import_repositories gh src_org tgt_org items
               (add_migration_result src_org tgt_org source_repo target_repo (JStr ''N/A'')
                  (JStr ''N/A'') ''FAILED'' ''Could not access target repository''
                  (logger ERROR (''Skipping '' @ target_repo
                                   @ '' - could not access repository'') st1))
         | (Ok (Some target_gh_repo), st1) \<Rightarrow>
             (case get_hooks gh (world st1) (fst target_gh_repo) (snd target_gh_repo) of
                (Inl e, w) \<Rightarrow>
                  (Raise e,
                   st1\<lparr>world := w,
                        calls := calls st1
                          @ [(fst target_gh_repo, Get_hooks (snd target_gh_repo))]\<rparr>)
              | (Inr hooks, w) \<Rightarrow>
                  (let st2 = st1\<lparr>world := w,
                                  calls := calls st1
                                    @ [(fst target_gh_repo, Get_hooks (snd target_gh_repo))]\<rparr>;
                       existing_target_hooks = hook_urls hooks
                   in if \<not> list_all hashable existing_target_hooks then (Raise TypeError, st2)
                      else
                        (case import_hooks gh src_org tgt_org source_repo target_repo
                                target_gh_repo existing_target_hooks webhooks
                                (logger INFO (''Importing '' @ str_nat (length webhooks)
                                                @ '' webhooks to '' @ target_repo) st2) of
                           (Ok u, st3) \<Rightarrow> import_repositories gh src_org tgt_org items st3
                         | (Raise e, st3) \<Rightarrow> (Raise e, st3)
                         | (OutOfFuel, st3) \<Rightarrow> (OutOfFuel, st3))))
         | (Raise e, st1) \<Rightarrow> (Raise e, st1)
         | (OutOfFuel, st1) \<Rightarrow> (OutOfFuel, st1)))"

text \<open>
  \<^verbatim>\<open>generate_csv_report\<close>, as far as the log shows it: writing a row joins the events of
  a result when they are a list, which fails unless all of them are strings; the failure
  is caught and logged.
\<close>

definition joinable :: "json \<Rightarrow> bool" where
  "joinable evs =
     (case evs of
        JList xs \<Rightarrow> list_all (\<lambda>x. case x of JStr s \<Rightarrow> True | _ \<Rightarrow> False) xs
      | _ \<Rightarrow> True)"

definition generate_csv_report :: "'w webhook_migrator \<Rightarrow> 'w webhook_migrator" where
  "generate_csv_report st =
     (let st1 = logger INFO ''Generating CSV migration report at {CSV_REPORT_FILE}'' st
      in if list_all (\<lambda>result. joinable (dict_get result ''events'' JNull))
              (migration_results st)
         then logger INFO ''CSV report generation complete.'' st1
         else logger ERROR ''Failed to generate CSV report: {e}'' st1)"

text \<open>
  \<^verbatim>\<open>import_webhooks\<close>, from the point where the export file has been read.
\<close>

definition import_webhooks ::
  "'w github \<Rightarrow> string \<Rightarrow> string \<Rightarrow> (string \<times> string \<times> json list) list
     \<Rightarrow> 'w webhook_migrator \<Rightarrow> unit outcome \<times> 'w webhook_migrator" where
  "import_webhooks gh src_org tgt_org items st =
     (case import_repositories gh src_org tgt_org items
             (logger INFO ''Import file created on: {export_date}''
                (logger INFO ''Starting webhook import process...'' st)) of
        (Ok u, st1) \<Rightarrow>
          (Ok (), logger INFO ''Webhook import process finished.'' (generate_csv_report st1))
      | (Raise e, st1) \<Rightarrow> (Raise e, st1)
      | (OutOfFuel, st1) \<Rightarrow> (OutOfFuel, st1))"


section \<open>Rulesets: bypass actors, export and import\<close>

text \<open>\<^verbatim>\<open>x.get(k, default)\<close>: only a dict has the method.\<close>

definition py_get :: "json \<Rightarrow> string \<Rightarrow> json \<Rightarrow> error + json" where
  "py_get x k dflt = (case x of JDict d \<Rightarrow> Inr (dict_get d k dflt) | _ \<Rightarrow> Inl AttributeError)"

text \<open>\<^verbatim>\<open>a or b\<close>.\<close>

definition py_or :: "json \<Rightarrow> json \<Rightarrow> json" where
  "py_or a b = (if truthy a then a else b)"

text \<open>
  \<^verbatim>\<open>str(x)\<close>, as an f-string interpolates a value into a URL or a message. The text of a
  list or of a dict is not rendered: it is written \<^verbatim>\<open>[...]\<close> or \<^verbatim>\<open>{...}\<close>.
\<close>

fun py_str :: "json \<Rightarrow> string" where
  "py_str JNull = ''None''"
| "py_str (JBool b) = (if b then ''True'' else ''False'')"
| "py_str (JInt n) = str_int n"
| "py_str (JStr s) = s"
| "py_str (JList xs) = ''[...]''"
| "py_str (JDict d) = ''{...}''"

text \<open>An expression that may raise, and what follows when it does not.\<close>

definition raising :: "error + 'a \<Rightarrow> 's \<Rightarrow> ('a \<Rightarrow> 'b outcome \<times> 's) \<Rightarrow> 'b outcome \<times> 's" where
  "raising r st f = (case r of Inl e \<Rightarrow> (Raise e, st) | Inr x \<Rightarrow> f x)"

text \<open>
  A \<^verbatim>\<open>for\<close> loop that builds a list: \<open>pass x\<close> gives the elements that the pass for \<open>x\<close>
  appends (none after \<^verbatim>\<open>continue\<close>); an exception ends the loop.
\<close>

fun for_each ::
  "('a \<Rightarrow> 's \<Rightarrow> 'b list outcome \<times> 's) \<Rightarrow> 'a list \<Rightarrow> 's \<Rightarrow> 'b list outcome \<times> 's" where
  "for_each pass [] st = (Ok [], st)"
| "for_each pass (x # xs) st =
     (case pass x st of
        (Ok ys, st1) \<Rightarrow>
          (case for_each pass xs st1 of
             (Ok zs, st2) \<Rightarrow> (Ok (ys @ zs), st2)
           | (Raise e, st2) \<Rightarrow> (Raise e, st2)
           | (OutOfFuel, st2) \<Rightarrow> (OutOfFuel, st2))
      | (Raise e, st1) \<Rightarrow> (Raise e, st1)
      | (OutOfFuel, st1) \<Rightarrow> (OutOfFuel, st1))"

text \<open>
  \<^verbatim>\<open>find_existing_team_in_target\<close>: the id of the team that the target organization has
  under the slug, read from \<^verbatim>\<open>GET /orgs/{target_org}/teams/{team_slug}\<close>; \<^verbatim>\<open>None\<close> (written
  \<open>JNull\<close>) when the slug is missing or the request fails. No other request is made.
\<close>

definition find_existing_team_in_target ::
  "'w service \<Rightarrow> json \<Rightarrow> string \<Rightarrow> session \<Rightarrow> string \<Rightarrow> ('w, 'm) env_scheme
     \<Rightarrow> json outcome \<times> ('w, 'm) env_scheme" where
  "find_existing_team_in_target serve team_details tgt_org token api_url st =
     raising (py_get team_details ''slug'' JNull) st
       (\<lambda>team_slug.
          if \<not> truthy team_slug then
            (Ok JNull, logger ERROR ''Team slug not found in team details'' st)
          else
            (case make_api_request serve ''GET''
                    (api_url @ ''/orgs/'' @ tgt_org @ ''/teams/'' @ py_str team_slug)
                    token [] None st of
               (Some response, st1) \<Rightarrow>
                 (case body response of
                    None \<Rightarrow> (Raise JSONDecodeError, st1)
                  | Some existing_team \<Rightarrow>
                      raising (subscript existing_team ''id'') st1
                        (\<lambda>team_id.
                           (Ok team_id,
                            logger INFO (''Found existing team '' @ quoted (py_str team_slug)
                                           @ '' in '' @ tgt_org @ '' with ID ''
                                           @ py_str team_id) st1)))
             | (None, st1) \<Rightarrow>
                 (Ok JNull,
                  logger WARNING (''Team '' @ quoted (py_str team_slug) @ '' not found in ''
                                    @ tgt_org @ '' - will be skipped'') st1)))"

text \<open>\<^verbatim>\<open>find_user_in_target\<close>: the id as it is, without a request.\<close>

definition find_user_in_target ::
  "json \<Rightarrow> string \<Rightarrow> session \<Rightarrow> string \<Rightarrow> ('w, 'm) env_scheme
     \<Rightarrow> json outcome \<times> ('w, 'm) env_scheme" where
  "find_user_in_target user_details tgt_org token api_url st =
     raising (py_get user_details ''id'' JNull) st
       (\<lambda>user_id.
          if \<not> truthy user_id then
            (Ok JNull, logger ERROR ''User ID not found in user details'' st)
          else
            (Ok user_id,
             logger INFO (''User ID '' @ py_str user_id
                            @ '' will be validated during ruleset creation'') st))"

text \<open>
  \<^verbatim>\<open>details.get("name") or details.get("login") or details.get("slug") or fallback\<close>.
\<close>

definition actor_name :: "json \<Rightarrow> json \<Rightarrow> error + json" where
  "actor_name details fallback =
     (case details of
        JDict d \<Rightarrow>
          Inr (py_or (dict_get d ''name'' JNull)
                 (py_or (dict_get d ''login'' JNull)
                    (py_or (dict_get d ''slug'' JNull) fallback)))
      | _ \<Rightarrow> Inl AttributeError)"

text \<open>
  One pass of the loop of \<^verbatim>\<open>resolve_bypass_actors_for_target\<close>: the resolved actor that
  it appends, if any.
\<close>

definition resolve_bypass_actor ::
  "'w service \<Rightarrow> string \<Rightarrow> session \<Rightarrow> string \<Rightarrow> json \<Rightarrow> ('w, 'm) env_scheme
     \<Rightarrow> json list outcome \<times> ('w, 'm) env_scheme" where
  "resolve_bypass_actor serve tgt_org token api_url enriched_actor st =
     raising (py_get enriched_actor ''actor_type'' JNull) st (\<lambda>actor_type.
     raising (py_get enriched_actor ''bypass_mode'' JNull) st (\<lambda>bypass_mode.
     raising (py_get enriched_actor ''details'' JNull) st (\<lambda>details.
     raising (py_get enriched_actor ''original_actor_id'' JNull) st (\<lambda>original_id.
       if \<not> truthy details then
         (Ok [],
          logger WARNING (''Skipping '' @ py_str actor_type @ '' actor '' @ py_str original_id
                            @ '' - no details available'') st)
       else
         and_then
           (if actor_type = JStr ''Team'' then
              find_existing_team_in_target serve details tgt_org token api_url st
            else if actor_type = JStr ''User'' then
              find_user_in_target details tgt_org token api_url st
            else if actor_type = JStr ''RepositoryRole'' then (Ok original_id, st)
            else (Ok JNull, st))
           (\<lambda>target_actor_id st1.
              if truthy target_actor_id then
                raising (actor_name details target_actor_id) st1
                  (\<lambda>name.
                     (Ok [JDict [(''actor_id'', target_actor_id),
                                 (''actor_type'', actor_type),
                                 (''bypass_mode'', bypass_mode)]],
                      logger INFO (''Resolved '' @ py_str actor_type @ '' ''
                                     @ quoted (py_str name) @ '' to ID ''
                                     @ py_str target_actor_id @ '' in '' @ tgt_org) st1))
              else
                raising (actor_name details original_id) st1
                  (\<lambda>name.
                     (Ok [],
                      logger WARNING (''Could not resolve '' @ py_str actor_type @ '' ''
                                        @ quoted (py_str name) @ '' in '' @ tgt_org)
                        st1)))))))"

definition resolve_bypass_actors_for_target ::
  "'w service \<Rightarrow> json \<Rightarrow> string \<Rightarrow> session \<Rightarrow> string \<Rightarrow> ('w, 'm) env_scheme
     \<Rightarrow> json list outcome \<times> ('w, 'm) env_scheme" where
  "resolve_bypass_actors_for_target serve enriched_bypass_actors tgt_org token api_url st =
     (if \<not> truthy enriched_bypass_actors then (Ok [], st)
      else
        (case py_iter enriched_bypass_actors of
           None \<Rightarrow> (Raise TypeError, st)
         | Some actors \<Rightarrow>
             for_each (resolve_bypass_actor serve tgt_org token api_url) actors st))"

text \<open>
  \<^verbatim>\<open>sanitize_bypass_actors\<close>, the fallback for a ruleset exported without enriched actors.
  \<open>remove_all\<close> and \<open>sanitize\<close> stand for the settings \<^verbatim>\<open>REMOVE_ALL_BYPASS_ACTORS\<close> and
  \<^verbatim>\<open>SANITIZE_BYPASS_ACTORS\<close>. First one pass of its loop, then the text it keeps of a
  removed actor.
\<close>

definition sanitize_actor ::
  "json \<Rightarrow> ('w, 'm) env_scheme \<Rightarrow> json list outcome \<times> ('w, 'm) env_scheme" where
  "sanitize_actor actor st =
     raising (py_get actor ''actor_type'' (JStr [])) st (\<lambda>actor_type.
     raising (py_get actor ''actor_id'' (JStr [])) st (\<lambda>actor_id.
       if actor_type = JStr ''RepositoryRole'' then (Ok [actor], st)
       else if actor_type = JStr ''Team'' then
         (Ok [],
          logger WARNING (''Removing bypass_actor '' @ py_str actor_type @ '':''
                            @ py_str actor_id
                            @ '' - teams from source org may not exist in target org'') st)
       else
         (Ok [actor],
          logger INFO (''Keeping bypass_actor '' @ py_str actor_type @ '':'' @ py_str actor_id
                         @ '' - please verify this exists in target org'') st)))"

definition removed_actor :: "json \<Rightarrow> string option" where
  "removed_actor actor =
     (case actor of
        JDict d \<Rightarrow>
          if dict_get d ''actor_type'' (JStr []) = JStr ''Team'' then
            Some (''Team:'' @ py_str (dict_get d ''actor_id'' (JStr [])))
          else None
      | _ \<Rightarrow> None)"

definition sanitize_bypass_actors ::
  "bool \<Rightarrow> bool \<Rightarrow> json \<Rightarrow> string \<Rightarrow> string \<Rightarrow> ('w, 'm) env_scheme
     \<Rightarrow> json outcome \<times> ('w, 'm) env_scheme" where
  "sanitize_bypass_actors remove_all sanitize bypass_actors org repo st =
     (if \<not> truthy bypass_actors then (Ok (JList []), st)
      else if remove_all then
        (Ok (JList []),
         logger INFO
           ''Removing all bypass_actors as per REMOVE_ALL_BYPASS_ACTORS configuration'' st)
      else if \<not> sanitize then
        (Ok bypass_actors,
         logger INFO
           ''Keeping original bypass_actors as per SANITIZE_BYPASS_ACTORS configuration'' st)
      else
        (case py_iter bypass_actors of
           None \<Rightarrow> (Raise TypeError, st)
         | Some actors \<Rightarrow>
             and_then (for_each sanitize_actor actors st)
               (\<lambda>sanitized_actors st1.
                  (Ok (JList sanitized_actors),
                   if List.map_filter removed_actor actors \<noteq> [] then
                     logger INFO (''Removed ''
                                    @ str_nat (length (List.map_filter removed_actor actors))
                                    @ '' bypass_actors from ruleset: ''
                                    @ join '', '' (List.map_filter removed_actor actors)) st1
                   else st1))))"

text \<open>
  \<^verbatim>\<open>check_existing_rulesets\<close>: the names and ids of the rulesets that the target lists,
  the empty dict when the listing fails. \<open>existing_of\<close> is its dict comprehension.
\<close>

fun existing_of :: "json list \<Rightarrow> (json \<times> json) list \<Rightarrow> error + (json \<times> json) list" where
  "existing_of [] m = Inr m"
| "existing_of (ruleset # rulesets) m =
     (case subscript ruleset ''name'' of
        Inl e \<Rightarrow> Inl e
      | Inr n \<Rightarrow>
          (case subscript ruleset ''id'' of
             Inl e \<Rightarrow> Inl e
           | Inr i \<Rightarrow>
               if hashable n then existing_of rulesets (AList.update (py_key n) i m)
               else Inl TypeError))"

definition rulesets_url :: "string \<Rightarrow> string \<Rightarrow> string \<Rightarrow> string" where
  "rulesets_url api_url org repo = api_url @ ''/repos/'' @ org @ ''/'' @ repo @ ''/rulesets''"

definition check_existing_rulesets ::
  "'w service \<Rightarrow> string \<Rightarrow> string \<Rightarrow> string \<Rightarrow> session \<Rightarrow> ('w, 'm) env_scheme
     \<Rightarrow> (json \<times> json) list outcome \<times> ('w, 'm) env_scheme" where
  "check_existing_rulesets serve org repo api_url token st =
     (case make_api_request serve ''GET''
             (if repo \<noteq> [] then rulesets_url api_url org repo
              else api_url @ ''/orgs/'' @ org @ ''/rulesets'')
             token [(''include_parents'', JStr ''false'')] None
             (logger DEBUG
                (if repo \<noteq> [] then ''Checking existing rulesets for repo: '' @ org @ ''/'' @ repo
                 else ''Checking existing rulesets for org: '' @ org) st) of
        (None, st1) \<Rightarrow> (Ok [], st1)
      | (Some response, st1) \<Rightarrow>
          (case body response of
             None \<Rightarrow> (Raise JSONDecodeError, st1)
           | Some rulesets \<Rightarrow>
               (case py_iter rulesets of
                  None \<Rightarrow> (Raise TypeError, st1)
                | Some rs \<Rightarrow>
                    raising (existing_of rs []) st1
                      (\<lambda>existing_rulesets.
                         (Ok existing_rulesets,
                          logger INFO (''Found '' @ str_nat (length existing_rulesets)
                                         @ '' existing rulesets'') st1)))))"

text \<open>
  The payload of the create request: the five fields of the ruleset that are present and
  not \<^verbatim>\<open>None\<close>.
\<close>

definition ruleset_payload :: "(string \<times> json) list \<Rightarrow> (string \<times> json) list" where
  "ruleset_payload ruleset =
     List.map_filter
       (\<lambda>k. case dict_get ruleset k JNull of JNull \<Rightarrow> None | v \<Rightarrow> Some (k, v))
       [''name'', ''target'', ''enforcement'', ''conditions'', ''rules'']"

text \<open>
  The bypass actors of the ruleset to create, with the note for the report: resolved from
  the enriched actors when the export holds any, else sanitized from the plain ones.
\<close>

definition bypass_actors_for ::
  "'w service \<Rightarrow> string \<Rightarrow> bool \<Rightarrow> bool \<Rightarrow> string \<Rightarrow> string \<Rightarrow> (string \<times> json) list
     \<Rightarrow> ('w, 'm) env_scheme \<Rightarrow> (json \<times> string list) outcome \<times> ('w, 'm) env_scheme" where
  "bypass_actors_for serve target_api_url remove_all sanitize org repo ruleset st =
     (if truthy (dict_get ruleset ''enriched_bypass_actors'' JNull) then
        and_then
          (resolve_bypass_actors_for_target serve
             (dict_get ruleset ''enriched_bypass_actors'' JNull) org Target target_api_url
             (logger INFO (''Resolving enriched bypass actors for ruleset ''
                             @ quoted (py_str (dict_get ruleset ''name'' (JStr ''Unknown'')))
                             @ ''...'') st))
          (\<lambda>resolved st1.
             (Ok (JList resolved,
                  [''Resolved '' @ str_nat (length resolved) @ '' from ''
                     @ str_nat (length (the (py_iter
                          (dict_get ruleset ''enriched_bypass_actors'' JNull))))
                     @ '' enriched actors'']), st1))
      else if truthy (dict_get ruleset ''bypass_actors'' JNull) then
        and_then
          (sanitize_bypass_actors remove_all sanitize (dict_get ruleset ''bypass_actors'' JNull)
             org repo
             (logger WARNING (''No enriched bypass actors found for ''
                                @ quoted (py_str (dict_get ruleset ''name'' (JStr ''Unknown'')))
                                @ '', falling back to sanitization'') st))
          (\<lambda>resolved st1.
             (Ok (resolved, [''Used sanitization fallback (no enriched data)'']), st1))
      else (Ok (JList [], []), st))"

text \<open>
  The end of a pass of the loop of \<^verbatim>\<open>import_rulesets_for_repo\<close>, from the log line
  \<^verbatim>\<open>Attempting to create ruleset\<close> on: the create request and the report entry that
  records its result. \<open>entry\<close> is the report entry so far and \<open>new_payload\<close> the payload.
\<close>

definition create_ruleset ::
  "'w service \<Rightarrow> string \<Rightarrow> string \<Rightarrow> string \<Rightarrow> (string \<times> json) list \<Rightarrow> (string \<times> json) list
     \<Rightarrow> json \<Rightarrow> ('w, 'm) env_scheme
     \<Rightarrow> (string \<times> json) list list outcome \<times> ('w, 'm) env_scheme" where
  "create_ruleset serve target_api_url org repo entry new_payload resolved_bypass_actors st =
     raising (subscript (JDict new_payload) ''name'') st (\<lambda>name.
       (case py_iter resolved_bypass_actors of
          None \<Rightarrow> (Raise TypeError, st)
        | Some actors \<Rightarrow>
            (case make_api_request serve ''POST'' (rulesets_url target_api_url org repo)
                    Target [] (Some (JDict new_payload))
                    (logger INFO
                       (''Attempting to create ruleset: '' @ quoted (py_str name) @ '' on ''
                          @ quoted (org @ ''/'' @ repo) @ '' with '' @ str_nat (length actors)
                          @ '' bypass actors...'') st) of
               (Some response, st1) \<Rightarrow>
                 if status_code response = 201 then
                   (case body response of
                      None \<Rightarrow> (Raise JSONDecodeError, st1)
                    | Some created_ruleset \<Rightarrow>
                        raising (subscript created_ruleset ''name'') st1 (\<lambda>created_name.
                        raising (subscript created_ruleset ''id'') st1 (\<lambda>created_id.
                          (Ok [entry @
                                 [(''migration_status'', JStr ''Success''),
                                  (''target_ruleset_id'', created_id),
                                  (''details'',
                                   JStr ''Successfully migrated to target repository'')]],
                           logger INFO
                             (''Ruleset '' @ quoted (py_str created_name)
                                @ '' created successfully on '' @ quoted (org @ ''/'' @ repo)
                                @ '' with ID '' @ py_str created_id) st1))))
                 else
                   (Ok [entry @
                          [(''migration_status'', JStr ''Failed''),
                           (''target_ruleset_id'', JStr ''N/A''),
                           (''details'', JStr (response_text response))]],
                    logger ERROR
                      (''Failed to create ruleset '' @ quoted (py_str name) @ '' on ''
                         @ quoted (org @ ''/'' @ repo) @ '': '' @ response_text response) st1)
             | (None, st1) \<Rightarrow>
                 (Ok [entry @
                        [(''migration_status'', JStr ''Failed''),
                         (''target_ruleset_id'', JStr ''N/A''),
                         (''details'',
                          JStr ''Request failed. Check console for API error.'')]],
                  logger ERROR
                    (''Failed to create ruleset '' @ quoted (py_str name) @ '' on ''
                       @ quoted (org @ ''/'' @ repo) @ '': ''
                       @ ''Request failed. Check console for API error.'') st1))))"

text \<open>
  One pass of the loop of \<^verbatim>\<open>import_rulesets_for_repo\<close>: the report entry for one ruleset.
  A ruleset whose name is among the existing ones is skipped before anything is resolved
  or sent.
\<close>

definition import_ruleset ::
  "'w service \<Rightarrow> string \<Rightarrow> bool \<Rightarrow> bool \<Rightarrow> string \<Rightarrow> string \<Rightarrow> (json \<times> json) list \<Rightarrow> string
     \<Rightarrow> json \<Rightarrow> ('w, 'm) env_scheme
     \<Rightarrow> (string \<times> json) list list outcome \<times> ('w, 'm) env_scheme" where
  "import_ruleset serve target_api_url remove_all sanitize org repo existing_rulesets source_info
       ruleset_json st =
     (case ruleset_json of
        JDict ruleset \<Rightarrow>
          (let ruleset_name = dict_get ruleset ''name'' (JStr ''Unknown'');
               report_entry =
                 [(''source_repository'', JStr source_info),
                  (''target_repository'', JStr (org @ ''/'' @ repo)),
                  (''ruleset_name'', ruleset_name),
                  (''source_ruleset_id'', dict_get ruleset ''id'' (JStr ''Unknown'')),
                  (''enforcement'', dict_get ruleset ''enforcement'' (JStr ''Unknown'')),
                  (''target'', dict_get ruleset ''target'' (JStr ''Unknown''))]
           in if \<not> hashable ruleset_name then (Raise TypeError, st)
              else
                (case map_of existing_rulesets (py_key ruleset_name) of
                   Some target_ruleset_id \<Rightarrow>
                     (Ok [report_entry @
                            [(''migration_status'', JStr ''Skipped''),
                             (''target_ruleset_id'', target_ruleset_id),
                             (''details'',
                              JStr ''Ruleset already exists in target repository'')]],
                      logger WARNING (''Ruleset '' @ quoted (py_str ruleset_name)
                                        @ '' already exists on '' @ quoted (org @ ''/'' @ repo)
                                        @ '' with ID '' @ py_str target_ruleset_id
                                        @ ''. Skipping creation.'') st)
                 | None \<Rightarrow>
                     and_then
                       (bypass_actors_for serve target_api_url remove_all sanitize org repo
                          ruleset st)
                       (\<lambda>(resolved_bypass_actors, bypass_actor_details) st1.
                          create_ruleset serve target_api_url org repo
                            (report_entry
                               @ (if bypass_actor_details \<noteq> []
                                  then [(''bypass_actors_info'',
                                         JStr (join ''; '' bypass_actor_details))]
                                  else []))
                            (ruleset_payload ruleset
                               @ (if truthy resolved_bypass_actors
                                  then [(''bypass_actors'', resolved_bypass_actors)]
                                  else []))
                            resolved_bypass_actors st1)))
      | _ \<Rightarrow> (Raise AttributeError, st))"

text \<open>
  \<^verbatim>\<open>import_rulesets_for_repo\<close>: the existing rulesets are listed once, before the loop.
  \<open>target_api_url\<close> stands for \<^verbatim>\<open>TARGET_API_URL\<close>; every request carries
  \<^verbatim>\<open>TARGET_GITHUB_TOKEN\<close>. A source organization or repository that is \<^verbatim>\<open>None\<close> is written
  as the empty string, which the test on it treats alike.
\<close>

definition import_rulesets_for_repo ::
  "'w service \<Rightarrow> string \<Rightarrow> bool \<Rightarrow> bool \<Rightarrow> string \<Rightarrow> string \<Rightarrow> json list \<Rightarrow> string \<Rightarrow> string
     \<Rightarrow> ('w, 'm) env_scheme
     \<Rightarrow> (string \<times> json) list list outcome \<times> ('w, 'm) env_scheme" where
  "import_rulesets_for_repo serve target_api_url remove_all sanitize org repo rulesets_to_create
       src_org source_repo st =
     and_then
       (check_existing_rulesets serve org repo target_api_url Target
          (logger INFO (''Starting ruleset import for '' @ quoted (org @ ''/'' @ repo)
                          @ ''...'') st))
       (\<lambda>existing_rulesets st1.
          for_each
            (import_ruleset serve target_api_url remove_all sanitize org repo existing_rulesets
               (if src_org \<noteq> [] \<and> source_repo \<noteq> [] then src_org @ ''/'' @ source_repo
                else ''Unknown''))
            rulesets_to_create st1)"

section \<open>Webhooks: observations and a simulated target\<close>

text \<open>The library calls that a run added, and the hooks it asked to create.\<close>

definition new_calls ::
  "('w, 'm) webhook_migrator_scheme \<Rightarrow> ('w, 'm) webhook_migrator_scheme
     \<Rightarrow> (session \<times> gh_call) list" where
  "new_calls st st' = drop (length (calls st)) (calls st')"

fun is_create :: "session \<times> gh_call \<Rightarrow> bool" where
  "is_create (s, Create_hook r n c e a) = True"
| "is_create (s, other) = False"

text \<open>The results that a run added, each as its webhook URL and its status.\<close>

definition new_results ::
  "('w, 'm) webhook_migrator_scheme \<Rightarrow> ('w, 'm) webhook_migrator_scheme
     \<Rightarrow> (json \<times> json) list" where
  "new_results st st' =
     map (\<lambda>result. (dict_get result ''webhook_url'' JNull, dict_get result ''status'' JNull))
       (drop (length (migration_results st)) (migration_results st'))"

text \<open>A field of an exported webhook, \<open>JNull\<close> when it is missing.\<close>

definition webhook_field :: "string \<Rightarrow> json \<Rightarrow> json" where
  "webhook_field k webhook = (case subscript webhook k of Inr v \<Rightarrow> v | Inl e \<Rightarrow> JNull)"

text \<open>The call that creates the hook of an exported webhook on a repository.\<close>

definition create_call :: "session \<times> string \<Rightarrow> json \<Rightarrow> session \<times> gh_call" where
  "create_call target_gh_repo webhook =
     (fst target_gh_repo,
      Create_hook (snd target_gh_repo) ''web''
        [(''url'', webhook_field ''url'' webhook),
         (''content_type'', webhook_field ''content_type'' webhook),
         (''insecure_ssl'', webhook_field ''insecure_ssl'' webhook)]
        (webhook_field ''events'' webhook) (webhook_field ''active'' webhook))"

text \<open>
  A target that keeps the hooks of its repositories by full name: a repository it does
  not hold cannot be fetched, and a created hook is added to the hooks of its repository.
\<close>

definition hook_store :: "((string \<times> hook list) list) github" where
  "hook_store =
     \<lparr>get_repo = (\<lambda>w s full_name.
        (if map_of w full_name = None then Some GithubException else None, w)),
      get_hooks = (\<lambda>w s full_name.
        (case map_of w full_name of None \<Rightarrow> Inl GithubException | Some hs \<Rightarrow> Inr hs, w)),
      create_hook = (\<lambda>w s full_name n cfg evs act.
        (case map_of w full_name of
           None \<Rightarrow> (Some GithubException, w)
         | Some hs \<Rightarrow>
             (None,
              AList.update full_name
                (hs @ [\<lparr>config = cfg, events = evs, active = (act = JBool True)\<rparr>]) w)))\<rparr>"

definition init_webhook_migrator :: "'w \<Rightarrow> 'w webhook_migrator" where
  "init_webhook_migrator w =
     \<lparr>world = w, trace = [], log = [], clock = 0, utcoffset = (\<lambda>t. 0),
      calls = [], migration_results = []\<rparr>"

text \<open>
  A target repository with one hook, inactive, for other events and with another content
  type; and two exported webhooks, the first with the URL of that hook.
\<close>

definition demo_target :: "(string \<times> hook list) list" where
  "demo_target =
     [(''tgt-org/svc-a'',
       [\<lparr>config = [(''url'', JStr ''https://ci.example/hook''),
                   (''content_type'', JStr ''form''),
                   (''insecure_ssl'', JStr ''1'')],
         events = JList [JStr ''issues''], active = False\<rparr>])]"

definition demo_webhooks :: "json list" where
  "demo_webhooks =
     [JDict [(''url'', JStr ''https://ci.example/hook''), (''content_type'', JStr ''json''),
             (''insecure_ssl'', JStr ''0''), (''events'', JList [JStr ''push'']),
             (''active'', JBool True)],
      JDict [(''url'', JStr ''https://chat.example/hook''), (''content_type'', JStr ''json''),
             (''insecure_ssl'', JStr ''0''), (''events'', JList [JStr ''push'']),
             (''active'', JBool True)]]"

text \<open>
  A result fits an exported webhook: it carries its URL, and the status \<^verbatim>\<open>SKIPPED\<close> when the
  URL is among the existing ones, \<^verbatim>\<open>SUCCESS\<close> or \<^verbatim>\<open>FAILED\<close> otherwise.
\<close>

definition status_fits :: "json list \<Rightarrow> json \<Rightarrow> json \<times> json \<Rightarrow> bool" where
  "status_fits existing webhook r =
     (fst r = webhook_field ''url'' webhook
      \<and> (if in_set (webhook_field ''url'' webhook) existing then snd r = JStr ''SKIPPED''
         else snd r = JStr ''SUCCESS'' \<or> snd r = JStr ''FAILED''))"

section \<open>Simulated services\<close>

text \<open>
  A source of \<open>N\<close> items served in pages of \<open>per_page\<close>: page \<open>p\<close> holds the items from
  position \<open>per_page * (p - 1)\<close> on, at most \<open>per_page\<close> of them, so every page before the
  last is full and the page after the last item is empty. The answer is a bare array or
  an object that carries the page under a collection key beside a total count.
\<close>

datatype shape = Bare | Wrapper string

definition page_of :: "json list \<Rightarrow> int \<Rightarrow> json list" where
  "page_of items page = take per_page (drop (per_page * nat (page - 1)) items)"

fun wrap :: "shape \<Rightarrow> nat \<Rightarrow> json list \<Rightarrow> json" where
  "wrap Bare n xs = JList xs"
| "wrap (Wrapper k) n xs = JDict [(''total_count'', JInt (int n)), (k, JList xs)]"

definition requested_page :: "request \<Rightarrow> int" where
  "requested_page req = (case map_of (params req) ''page'' of Some (JInt p) \<Rightarrow> p | _ \<Rightarrow> 1)"

definition paged_source :: "shape \<Rightarrow> json list \<Rightarrow> 'w service" where
  "paged_source sh items w req =
     (Some \<lparr>status_code = 200, remaining_header = Some 4999, reset_header = Some 0,
            body = Some (wrap sh (length items) (page_of items (requested_page req))),
            response_text = []\<rparr>, w)"

text \<open>An upstream that answers every page request with a full page.\<close>

definition full_page :: "json list" where
  "full_page = replicate per_page (JDict [(''name'', JStr ''repo'')])"

definition endless_source :: "'w service" where
  "endless_source w req =
     (Some \<lparr>status_code = 200, remaining_header = Some 4999, reset_header = Some 0,
            body = Some (JList full_page), response_text = []\<rparr>, w)"

text \<open>
  A target that keeps what it is sent, one resource per URL: a GET answers 200 with the
  resource or 404; a PUT stores the payload at the URL (201 for a new resource, 204 for an
  existing one); a POST to a collection creates the member named in the payload (201) or
  reports that it exists (409); a PATCH replaces an existing resource (204).
\<close>

definition answer :: "int \<Rightarrow> json option \<Rightarrow> response" where
  "answer code b =
     \<lparr>status_code = code, remaining_header = Some 4999, reset_header = Some 0,
      body = b, response_text = []\<rparr>"

definition rest_store :: "(string \<times> json) list service" where
  "rest_store w req =
     (if http_method req = ''GET'' then
        (case map_of w (url req) of
           Some r \<Rightarrow> (Some (answer 200 (Some r)), w)
         | None \<Rightarrow> (Some (answer 404 (Some (JDict [(''message'', JStr ''Not Found'')]))), w))
      else if http_method req = ''PUT'' then
        (case payload req of
           Some p \<Rightarrow>
             (Some (answer (if map_of w (url req) = None then 201 else 204) None),
              AList.update (url req) p w)
         | None \<Rightarrow> (Some (answer 422 None), w))
      else if http_method req = ''POST'' then
        (case payload req of
           Some (JDict d) \<Rightarrow>
             (case map_of d ''name'' of
                Some (JStr n) \<Rightarrow>
                  if map_of w (url req @ ''/'' @ n) = None then
                    (Some (answer 201 (Some (JDict d))),
                     AList.update (url req @ ''/'' @ n) (JDict d) w)
                  else (Some (answer 409 None), w)
              | _ \<Rightarrow> (Some (answer 422 None), w))
         | _ \<Rightarrow> (Some (answer 422 None), w))
      else if http_method req = ''PATCH'' then
        (case (map_of w (url req), payload req) of
           (Some r, Some p) \<Rightarrow> (Some (answer 204 None), AList.update (url req) p w)
         | _ \<Rightarrow> (Some (answer 404 None), w))
      else (Some (answer 405 None), w))"

text \<open>
  A stand-in for the sealed box in concrete runs, and a target organization \<^verbatim>\<open>tgt-org\<close>
  that serves a public key and lists one repository, \<^verbatim>\<open>svc-a\<close> with id 11.
\<close>

definition toy_seal :: "string \<Rightarrow> json \<Rightarrow> string option" where
  "toy_seal v k = (case k of JStr pk \<Rightarrow> Some (''sealed:'' @ v) | _ \<Rightarrow> None)"

definition target_world :: "(string \<times> json) list" where
  "target_world =
     [(org_public_key_url ''tgt-org'', JDict [(''key_id'', JStr ''k1''), (''key'', JStr ''pk'')]),
      (org_repos_url ''tgt-org'', JList [JDict [(''id'', JInt 11), (''name'', JStr ''svc-a'')]])]"

text \<open>The requests a call issued, and those of them that are not reads.\<close>

definition sent :: "('w, 'm) env_scheme \<Rightarrow> ('w, 'm) env_scheme \<Rightarrow> request list" where
  "sent st st' = drop (length (trace st)) (trace st')"

definition writes :: "request list \<Rightarrow> request list" where
  "writes rs = filter (\<lambda>r. http_method r \<noteq> ''GET'') rs"

definition payload_field :: "string \<Rightarrow> request \<Rightarrow> json option" where
  "payload_field k r = (case payload r of Some (JDict d) \<Rightarrow> map_of d k | _ \<Rightarrow> None)"

text \<open>
  A call only adds requests to the trace; \<open>grows_by P\<close> says that each request it added
  satisfies \<open>P\<close>.
\<close>

definition grows_by ::
  "(request \<Rightarrow> bool) \<Rightarrow> ('w, 'm) env_scheme \<Rightarrow> ('w, 'n) env_scheme \<Rightarrow> bool" where
  "grows_by P st st' = (\<exists>rs. trace st' = trace st @ rs \<and> list_all P rs)"

definition is_get :: "request \<Rightarrow> bool" where
  "is_get r = (http_method r = ''GET'')"


text \<open>
  What one iteration of the collector reads from a page body: the items \<open>xs\<close> of a bare
  array, or of the collection found under \<^verbatim>\<open>'repositories'\<close> or \<open>key\<close> in an object.
\<close>

definition carries :: "string \<Rightarrow> json \<Rightarrow> json list \<Rightarrow> bool" where
  "carries key data xs =
     (case data of
        JList ys \<Rightarrow> ys = xs
      | JDict d \<Rightarrow>
          d \<noteq> [] \<and> py_iter (dict_get d ''repositories'' (dict_get d key (JList []))) = Some xs
      | _ \<Rightarrow> False)"

text \<open>The response shapes whose collection a collector with second key \<open>key\<close> finds.\<close>

definition recognised :: "string \<Rightarrow> shape \<Rightarrow> bool" where
  "recognised key sh =
     (case sh of
        Bare \<Rightarrow> True
      | Wrapper k \<Rightarrow> k = ''repositories'' \<or> (k = key \<and> key \<noteq> ''total_count''))"

text \<open>
  The fields as \<^verbatim>\<open>__init__\<close> of the secrets migrator sets them, before the first
  request, for two organizations named \<^verbatim>\<open>src-org\<close> and \<^verbatim>\<open>tgt-org\<close>, in a process whose
  local time is UTC.
\<close>

definition init_migrator :: "'w \<Rightarrow> real \<Rightarrow> 'w migrator" where
  "init_migrator w t =
     \<lparr>world = w, trace = [], log = [], clock = t, utcoffset = (\<lambda>t. 0),
      source_org = ''src-org'', target_org = ''tgt-org'', collection_key = ''secrets'',
      rate_limit_remaining = 5000, rate_limit_reset = None,
      target_repo_mapping = [], org_public_key_cache = []\<rparr>"

text \<open>The same fields for the variables migrator.\<close>

definition init_variables_migrator :: "'w \<Rightarrow> real \<Rightarrow> 'w migrator" where
  "init_variables_migrator w t = (init_migrator w t)\<lparr>collection_key := ''variables''\<rparr>"

text \<open>
  A time zone that sets its clocks back by one hour at the instant \<open>T\<close>: local time is four
  hours behind UTC before \<open>T\<close> and five hours behind from \<open>T\<close> on, as in New York on the
  first Sunday of November.
\<close>

definition fall_back :: "real \<Rightarrow> real \<Rightarrow> real" where
  "fall_back T t = (if t < T then - 14400 else - 18000)"

text \<open>An upstream whose every answer reports no calls left and a given reset time.\<close>

definition exhausted_source :: "int \<Rightarrow> 'w service" where
  "exhausted_source reset w req =
     (Some \<lparr>status_code = 200, remaining_header = Some 0, reset_header = Some reset,
            body = Some (JList []), response_text = []\<rparr>, w)"

(*PROPERTIES*)
section \<open>Properties of the transport and the collector\<close>

lemma trace_logger [simp]: "trace (logger l m st) = trace st"
  by (simp add: logger_def)

lemma clock_logger [simp]: "clock (logger l m st) = clock st"
  by (simp add: logger_def)

lemma world_logger [simp]: "world (logger l m st) = world st"
  by (simp add: logger_def)

lemma log_logger [simp]: "log (logger l m st) = log st @ [(l, m)]"
  by (simp add: logger_def)

lemma trace_handle_rate_limit [simp]: "trace (handle_rate_limit r st) = trace st"
  by (simp add: handle_rate_limit_def Let_def sleep_def split: option.splits)

lemma world_handle_rate_limit [simp]: "world (handle_rate_limit r st) = world st"
  by (simp add: handle_rate_limit_def Let_def sleep_def split: option.splits)

lemma log_handle_rate_limit_quiet:
  "remaining_header r = Some n \<Longrightarrow> 10 \<le> n \<Longrightarrow> status_code r \<noteq> 429 \<Longrightarrow>
   log (handle_rate_limit r st) = log st"
  by (simp add: handle_rate_limit_def Let_def)

lemma make_request_paged:
  "\<exists>st1. make_request (paged_source sh items) (page_request s u page) st =
     (Ok \<lparr>status_code = 200, remaining_header = Some 4999, reset_header = Some 0,
            body = Some (wrap sh (length items) (page_of items page)),
            response_text = []\<rparr>, st1)"
  by (simp add: make_request_def paged_source_def page_request_def requested_page_def)

lemma page_of_short:
  "length (page_of items (int j + 1)) < per_page \<Longrightarrow> page_of items (int j + 1) = drop (per_page * j) items"
  by (simp add: page_of_def)

lemma page_of_full:
  assumes "\<not> length (page_of items (int j + 1)) < per_page"
  shows "page_of items (int j + 1) @ drop (per_page * Suc j) items = drop (per_page * j) items
     \<and> per_page \<le> length items - per_page * j"
proof -
  have p: "page_of items (int j + 1) = take per_page (drop (per_page * j) items)"
    by (simp add: page_of_def)
  have d: "drop (per_page * Suc j) items = drop per_page (drop (per_page * j) items)"
    by (simp add: add.commute)
  have "per_page \<le> length (drop (per_page * j) items)"
    using assms unfolding p by simp
  then have l: "per_page \<le> length items - per_page * j" by simp
  show ?thesis unfolding p d by (simp only: append_take_drop_id l simp_thms)
qed

lemma paginate_more:
  "make_request serve (page_request s u page) st = (Ok resp, st1) \<Longrightarrow>
   status_code resp = 200 \<Longrightarrow> body resp = Some data \<Longrightarrow> carries key data xs \<Longrightarrow>
   \<not> length xs < per_page \<Longrightarrow>
   paginate (Suc n) serve key s u page acc st =
     paginate n serve key s u (page + 1) (acc @ xs)
       (logger DEBUG (''Fetched page '' @ str_int page @ '', total items so far: ''
                        @ str_nat (length (acc @ xs))) st1)"
  by (cases data) (auto simp: per_page_def carries_def)

lemma paginate_last:
  "make_request serve (page_request s u page) st = (Ok resp, st1) \<Longrightarrow>
   status_code resp = 200 \<Longrightarrow> body resp = Some data \<Longrightarrow> carries key data xs \<Longrightarrow>
   length xs < per_page \<Longrightarrow>
   paginate (Suc n) serve key s u page acc st = (Ok (acc @ xs), st1)"
  by (cases data) (auto simp: carries_def)

declare paginate.simps(2) [simp del]

lemma carries_wrap: "recognised key sh \<Longrightarrow> carries key (wrap sh n xs) xs"
  by (cases sh) (auto simp: recognised_def carries_def dict_get_def)

lemma paginate_paged:
  "recognised key sh \<Longrightarrow> length items - per_page * j < per_page * n \<Longrightarrow>
   fst (paginate n (paged_source sh items) key s u (int j + 1) acc (st :: 'w migrator))
     = Ok (acc @ drop (per_page * j) items)"
proof (induction n arbitrary: j acc st)
  case 0
  then show ?case by simp
next
  case (Suc n)
  let ?resp = "\<lparr>status_code = 200, remaining_header = Some 4999, reset_header = Some 0,
            body = Some (wrap sh (length items) (page_of items (int j + 1))),
            response_text = []\<rparr>"
  obtain st1 where mr: "make_request (paged_source sh items) (page_request s u (int j + 1)) st = (Ok ?resp, st1)"
    using make_request_paged[of sh items s u "int j + 1" st] by blast
  note c = carries_wrap[OF Suc.prems(1), of "length items" "page_of items (int j + 1)"]
  show ?case
  proof (cases "length (page_of items (int j + 1)) < per_page")
    case True
    show ?thesis
      using paginate_last[OF mr _ _ c True, of n acc] page_of_short[OF True] by simp
  next
    case False
    have lt: "length items - per_page * Suc j < per_page * n"
    proof -
      have "per_page \<le> length items - per_page * j" using page_of_full[OF False] by simp
      then show ?thesis using Suc.prems(2) by (simp add: per_page_def)
    qed
    have eq: "(acc @ page_of items (int j + 1)) @ drop (per_page * Suc j) items = acc @ drop (per_page * j) items"
      using page_of_full[OF False] by simp
    have pg: "int j + 1 + 1 = int (Suc j) + 1" by simp
    have step: "paginate (Suc n) (paged_source sh items) key s u (int j + 1) acc st =
       paginate n (paged_source sh items) key s u (int (Suc j) + 1) (acc @ page_of items (int j + 1))
       (logger DEBUG (''Fetched page '' @ str_int (int j + 1) @ '', total items so far: ''
                        @ str_nat (length (acc @ page_of items (int j + 1)))) st1)"
      unfolding pg[symmetric] by (rule paginate_more[OF mr _ _ c False]) simp_all
    show ?thesis
      unfolding step using Suc.IH[OF Suc.prems(1) lt, of "acc @ page_of items (int j + 1)"] eq by simp
  qed
qed

lemma get_paginated_data_complete:
  "recognised key sh \<Longrightarrow>
   fst (get_paginated_data (length items div per_page + 1 + extra) (paged_source sh items) key s u (st :: 'w migrator))
     = Ok items"
proof -
  assume r: "recognised key sh"
  have "length items - per_page * 0 < per_page * (length items div per_page + 1 + extra)"
    unfolding per_page_def by simp
  from paginate_paged[OF r this, where acc="[]" and s=s and u=u and st=st] show ?thesis
    by (simp add: get_paginated_data_def)
qed

lemma make_request_endless:
  "make_request endless_source req st =
     (Ok \<lparr>status_code = 200, remaining_header = Some 4999, reset_header = Some 0,
            body = Some (JList full_page), response_text = []\<rparr>,
      handle_rate_limit \<lparr>status_code = 200, remaining_header = Some 4999, reset_header = Some 0,
            body = Some (JList full_page), response_text = []\<rparr>
        (st\<lparr>trace := trace st @ [req]\<rparr>))"
  by (simp add: make_request_def endless_source_def)

lemma paginate_endless:
  "fst (paginate n endless_source key s u page acc (st :: 'w migrator)) = OutOfFuel
   \<and> length (trace (snd (paginate n endless_source key s u page acc st))) = length (trace st) + n
   \<and> filter (\<lambda>e. fst e = WARNING) (log (snd (paginate n endless_source key s u page acc st)))
       = filter (\<lambda>e. fst e = WARNING) (log st)"
proof (induction n arbitrary: page acc st)
  case 0
  show ?case by simp
next
  case (Suc n)
  have c: "carries key (JList full_page) full_page" by (simp add: carries_def)
  have f: "\<not> length full_page < per_page" by (simp add: full_page_def)
  have step: "paginate (Suc n) endless_source key s u page acc st =
      paginate n endless_source key s u (page + 1) (acc @ full_page)
       (logger DEBUG (''Fetched page '' @ str_int page @ '', total items so far: ''
                        @ str_nat (length (acc @ full_page)))
          (handle_rate_limit \<lparr>status_code = 200, remaining_header = Some 4999, reset_header = Some 0,
            body = Some (JList full_page), response_text = []\<rparr>
        (st\<lparr>trace := trace st @ [page_request s u page]\<rparr>)))"
    by (rule paginate_more[OF make_request_endless _ _ c f]) simp_all
  show ?case unfolding step using Suc.IH
    by (simp add: log_handle_rate_limit_quiet)
qed


lemma map_err_replicate: "f x = Inr y \<Longrightarrow> map_err f (replicate n x) = Inr (replicate n y)"
  by (induction n) simp_all

lemma repo_names_full_page: "repo_names (JList full_page) = Inr (replicate per_page (JStr ''repo''))"
  by (simp add: repo_names_def full_page_def map_err_replicate)

lemma truthy_full_page: "full_page \<noteq> []"
  by (simp add: full_page_def per_page_def)

lemma make_api_request_endless:
  "\<exists>st1. make_api_request endless_source meth u token ps js st =
     (Some \<lparr>status_code = 200, remaining_header = Some 4999, reset_header = Some 0,
            body = Some (JList full_page), response_text = []\<rparr>, st1)
     \<and> trace st1 = trace st @ [\<lparr>via = token, http_method = meth, url = u, params = ps, payload = js\<rparr>]"
  by (simp add: make_api_request_def endless_source_def Let_def)

lemma get_all_repos_loop_endless:
  "fst (get_all_repos_loop n endless_source org api token page repos st) = OutOfFuel
   \<and> length (trace (snd (get_all_repos_loop n endless_source org api token page repos st)))
       = length (trace st) + n"
proof (induction n arbitrary: page repos st)
  case 0
  show ?case by simp
next
  case (Suc n)
  obtain st1 where mr: "make_api_request endless_source ''GET'' (api @ ''/orgs/'' @ org @ ''/repos'') token
             [(''per_page'', JInt 100), (''page'', JInt page)] None st =
     (Some \<lparr>status_code = 200, remaining_header = Some 4999, reset_header = Some 0,
            body = Some (JList full_page), response_text = []\<rparr>, st1)"
    and tr: "length (trace st1) = length (trace st) + 1"
    using make_api_request_endless[of "''GET''" "api @ ''/orgs/'' @ org @ ''/repos''" token
             "[(''per_page'', JInt 100), (''page'', JInt page)]" None st] by auto
  show ?case
    using mr tr Suc.IH[of "page + 1" "repos @ replicate per_page (JStr ''repo'')" st1]
    by (simp add: repo_names_full_page truthy_full_page)
qed

lemma get_all_repos_endless:
  "fst (get_all_repos n endless_source org api token st) = OutOfFuel
   \<and> length (trace (snd (get_all_repos n endless_source org api token st))) = length (trace st) + n"
proof -
  let ?st0 = "logger INFO (''Fetching all repositories for organization '' @ quoted org @ ''...'') st"
  obtain st1 where r: "get_all_repos_loop n endless_source org api token 1 [] ?st0 = (OutOfFuel, st1)"
    using get_all_repos_loop_endless[of n org api token 1 "[]" ?st0]
    by (cases "get_all_repos_loop n endless_source org api token 1 [] ?st0") simp
  have "length (trace st1) = length (trace st) + n"
    using get_all_repos_loop_endless[of n org api token 1 "[]" ?st0] r by simp
  then show ?thesis unfolding get_all_repos_def r by simp
qed

text \<open>
  C2. A source of \<open>N\<close> items served in pages of 100 (every page before the last full, the
  last one short or empty) is collected completely and in order, whatever \<open>N mod 100\<close> is:
  with at least \<open>N div 100 + 1\<close> iterations the collector returns exactly the items, from
  bare arrays and from wrapper objects that carry the page under \<^verbatim>\<open>'repositories'\<close>, or
  under \<^verbatim>\<open>'secrets'\<close> (secrets migrator) or \<^verbatim>\<open>'variables'\<close> (variables migrator).
\<close>

theorem pagination_complete:
  "fst (get_paginated_data (length items div per_page + 1 + extra)
          (paged_source Bare items) key s u (st :: 'w migrator)) = Ok items
   \<and> fst (get_paginated_data (length items div per_page + 1 + extra)
          (paged_source (Wrapper ''repositories'') items) key s u st) = Ok items
   \<and> fst (get_paginated_data (length items div per_page + 1 + extra)
          (paged_source (Wrapper ''secrets'') items) ''secrets'' s u st) = Ok items
   \<and> fst (get_paginated_data (length items div per_page + 1 + extra)
          (paged_source (Wrapper ''variables'') items) ''variables'' s u st) = Ok items"
proof -
  have "recognised key Bare" "recognised key (Wrapper ''repositories'')"
    "recognised ''secrets'' (Wrapper ''secrets'')"
    "recognised ''variables'' (Wrapper ''variables'')"
    by (simp_all add: recognised_def)
  then show ?thesis
    by (simp only: get_paginated_data_complete simp_thms)
qed

text \<open>
  The boundary cases of C2 on numbered items: none, exactly one full page, one full page
  and one more item.
\<close>

theorem pagination_complete_boundaries:
  "fst (get_paginated_data 1 (paged_source Bare []) ''secrets'' Source ''u''
          (init_migrator () 0)) = Ok []
   \<and> fst (get_paginated_data 2 (paged_source Bare (map JInt [0..100])) ''secrets'' Source ''u''
          (init_migrator () 0)) = Ok (map JInt [0..100])
   \<and> fst (get_paginated_data 2 (paged_source (Wrapper ''repositories'') (map JInt [1..100]))
          ''secrets'' Source ''u'' (init_migrator () 0)) = Ok (map JInt [1..100])"
  using pagination_complete [of "[]" 0 "''secrets''" Source "''u''" "init_migrator () 0"]
    pagination_complete [of "map JInt [0..100]" 0 "''secrets''" Source "''u''"
      "init_migrator () 0"]
    pagination_complete [of "map JInt [1..100]" 0 "''secrets''" Source "''u''"
      "init_migrator () 0"]
  by (simp add: per_page_def numeral_2_eq_2)

text \<open>
  C3. Neither \<^verbatim>\<open>_get_paginated_data\<close> nor \<^verbatim>\<open>get_all_repos\<close> bounds the number of pages:
  against an upstream that answers every request with a full page, a run given any number
  \<open>fuel\<close> of iterations is still in its loop after \<open>fuel\<close> requests, and the collector has
  logged no warning.
\<close>

theorem pagination_unbounded:
  "fst (get_paginated_data fuel endless_source key s u (st :: 'w migrator)) = OutOfFuel
   \<and> length (trace (snd (get_paginated_data fuel endless_source key s u st)))
       = length (trace st) + fuel
   \<and> filter (\<lambda>e. fst e = WARNING) (log (snd (get_paginated_data fuel endless_source key s u st)))
       = filter (\<lambda>e. fst e = WARNING) (log st)
   \<and> fst (get_all_repos fuel endless_source org api token (st' :: ('w, 'm) env_scheme))
       = OutOfFuel
   \<and> length (trace (snd (get_all_repos fuel endless_source org api token st')))
       = length (trace st') + fuel"
  using paginate_endless [of fuel key s u 1 "[]" st]
    get_all_repos_endless [of fuel org api token st']
  by (simp add: get_paginated_data_def)

text \<open>
  C6 fails when the local UTC offset changes between now and the reset time. Two seconds
  before a time zone sets its clocks back by an hour, a response reports 0 calls left and
  a reset time 5 seconds ahead: the difference of the two local datetimes is 5 - 3600
  seconds, the waiting time -3585, and the transport returns at once, without sleeping
  and without a warning.
\<close>

theorem rate_limit_no_wait_across_fall_back:
  "fst (make_request (exhausted_source (T + 3)) req
          (st\<lparr>clock := real_of_int T - 2, utcoffset := fall_back (real_of_int T)\<rparr>))
     = Ok \<lparr>status_code = 200, remaining_header = Some 0, reset_header = Some (T + 3),
           body = Some (JList []), response_text = []\<rparr>
   \<and> clock (snd (make_request (exhausted_source (T + 3)) req
          (st\<lparr>clock := real_of_int T - 2, utcoffset := fall_back (real_of_int T)\<rparr>)))
     = real_of_int T - 2
   \<and> log (snd (make_request (exhausted_source (T + 3)) req
          (st\<lparr>clock := real_of_int T - 2, utcoffset := fall_back (real_of_int T)\<rparr>)))
     = log st
   \<and> rate_limit_remaining (snd (make_request (exhausted_source (T + 3)) req
          (st\<lparr>clock := real_of_int T - 2, utcoffset := fall_back (real_of_int T)\<rparr>))) = 0"
  by (simp add: make_request_def handle_rate_limit_def exhausted_source_def fall_back_def
        fromtimestamp_def datetime_now_def Let_def)

text \<open>
  When the local UTC offset is the same now and at the reset time, a response that
  reports fewer than 10 calls left, or has status 429, makes the transport sleep until
  ten seconds past the reset time before it returns: with a reset time 5 seconds ahead
  the next call is issued 15 seconds later.
\<close>

theorem rate_limit_wait_constant_offset:
  assumes "serve (world st) req = (Some r, w)"
    and "remaining_header r = Some n" and "status_code r = 429 \<or> n < 10"
    and "reset_header r = Some reset"
    and "utcoffset st (real_of_int reset) = utcoffset st (clock st)"
    and "clock st < real_of_int reset + 10"
  shows "fst (make_request serve req st) = Ok r
    \<and> clock (snd (make_request serve req st)) = real_of_int reset + 10
    \<and> rate_limit_remaining (snd (make_request serve req st)) = n
    \<and> rate_limit_reset (snd (make_request serve req st)) = Some reset"
  using assms
  by (auto simp: make_request_def handle_rate_limit_def Let_def sleep_def logger_def
        fromtimestamp_def datetime_now_def)

theorem rate_limit_wait_constant_offset_witness:
  "clock (snd (make_request (exhausted_source 1005) (page_request Source ''u'' 1)
                 (init_migrator () 1000))) = 1015"
  using rate_limit_wait_constant_offset [of "exhausted_source 1005" "init_migrator () 1000"
      "page_request Source ''u'' 1"
      "\<lparr>status_code = 200, remaining_header = Some 0, reset_header = Some 1005,
        body = Some (JList []), response_text = []\<rparr>" "()" 0 1005]
  by (simp add: exhausted_source_def init_migrator_def)

section \<open>Properties of the secrets and variables import\<close>

lemma and_then_Ok [simp]: "and_then (Ok x, st) f = f x st"
  by (simp add: and_then_def)

lemma and_then_Raise [simp]: "and_then (Raise e, st) f = (Raise e, st)"
  by (simp add: and_then_def)

lemma and_then_OutOfFuel [simp]: "and_then (OutOfFuel, st) f = (OutOfFuel, st)"
  by (simp add: and_then_def)

lemma make_request_cases:
  obtains st1 where "make_request serve req st = (Raise RequestException, st1)"
      and "trace st1 = trace st @ [req]"
  | r st1 where "make_request serve req st = (Ok r, st1)"
      and "trace st1 = trace st @ [req]" and "fst (serve (world st) req) = Some r"
      and "world st1 = snd (serve (world st) req)"
      and "target_repo_mapping st1 = target_repo_mapping st"
  by (cases "serve (world st) req"; cases "fst (serve (world st) req)")
     (auto simp: make_request_def handle_rate_limit_def Let_def sleep_def logger_def split: option.splits)

lemma sent_same [simp]: "sent st st = []"
  by (simp add: sent_def)

lemma sent_logger [simp]: "sent st (logger l m st') = sent st st'"
  by (simp add: sent_def)

lemma set_selected_empty:
  "set_selected_repositories fuel serve what name ''selected'' [] data st = (Ok data, st)"
  by (simp add: set_selected_repositories_def)

lemma set_selected_other:
  "visibility \<noteq> ''selected'' \<Longrightarrow>
   set_selected_repositories fuel serve what name visibility names data st = (Ok data, st)"
  by (simp add: set_selected_repositories_def)


lemma grows_by_refl [simp]: "grows_by P st st"
  by (simp add: grows_by_def)

lemma grows_by_trans:
  "grows_by P st st1 \<Longrightarrow> grows_by P st1 st2 \<Longrightarrow> grows_by P st st2"
  by (auto simp: grows_by_def)

lemma grows_by_mono:
  "grows_by P st st1 \<Longrightarrow> (\<And>r. P r \<Longrightarrow> Q r) \<Longrightarrow> grows_by Q st st1"
  by (auto simp: grows_by_def list_all_iff)

lemma grows_by_logger_right [simp]: "grows_by P st (logger l m st1) = grows_by P st st1"
  by (simp add: grows_by_def)

lemma grows_by_logger_left [simp]: "grows_by P (logger l m st) st1 = grows_by P st st1"
  by (simp add: grows_by_def)

lemma grows_by_mapping_right [simp]:
  "grows_by P st (st1\<lparr>target_repo_mapping := m\<rparr>) = grows_by P st st1"
  by (simp add: grows_by_def)

lemma grows_by_cache_right [simp]:
  "grows_by P st (st1\<lparr>org_public_key_cache := m\<rparr>) = grows_by P st st1"
  by (simp add: grows_by_def)

lemma grows_by_sent: "grows_by P st st1 \<Longrightarrow> list_all P (sent st st1)"
  by (auto simp: grows_by_def sent_def)

lemma grows_by_make_request:
  "P req \<Longrightarrow> grows_by P st (snd (make_request serve req st))"
  by (rule make_request_cases[of serve req st]) (auto simp: grows_by_def)

lemma grows_by_and_then:
  assumes "grows_by P st (snd m)"
    and "\<And>x st1. m = (Ok x, st1) \<Longrightarrow> grows_by P st1 (snd (f x st1))"
  shows "grows_by P st (snd (and_then m f))"
proof (cases m)
  case (Pair r st1)
  show ?thesis
  proof (cases r)
    case (Ok x)
    then show ?thesis using assms Pair by (auto intro: grows_by_trans)
  qed (use assms Pair in auto)
qed

lemma grows_by_paginate:
  "P (page_request s u 0) \<Longrightarrow> (\<And>p q. P (page_request s u p) = P (page_request s u q)) \<Longrightarrow>
   grows_by P st (snd (paginate n serve key s u page acc st))"
proof (induction n arbitrary: page acc st)
  case 0
  show ?case by simp
next
  case (Suc n)
  have P: "P (page_request s u page)" using Suc.prems by blast
  note IH = Suc.IH[OF Suc.prems]
  show ?case
  proof (rule make_request_cases[of serve "page_request s u page" st])
    fix st1 assume "make_request serve (page_request s u page) st = (Raise RequestException, st1)"
      and "trace st1 = trace st @ [page_request s u page]"
    then show ?thesis using P by (simp add: paginate.simps(2) grows_by_def)
  next
    fix r st1 assume mr: "make_request serve (page_request s u page) st = (Ok r, st1)"
      and tr: "trace st1 = trace st @ [page_request s u page]"
    have g1: "grows_by P st st1" using tr P by (simp add: grows_by_def)
    have g2: "grows_by P st (snd (paginate n serve key s u page' acc' (logger l m st1)))" for page' acc' l m
    proof -
      have "grows_by P (logger l m st1) (snd (paginate n serve key s u page' acc' (logger l m st1)))"
        by (rule IH)
      then have "grows_by P st1 (snd (paginate n serve key s u page' acc' (logger l m st1)))"
        by simp
      with g1 show ?thesis by (rule grows_by_trans)
    qed
    show ?thesis
      using mr g1 g2
      by (simp add: paginate.simps(2) split: option.splits json.splits)
  qed
qed


lemma page_request_via [simp]: "via (page_request s u p) = s"
  by (simp add: page_request_def)

lemma page_request_is_get [simp]: "is_get (page_request s u p)"
  by (simp add: page_request_def is_get_def)

lemma grows_by_get_paginated_data:
  "grows_by (\<lambda>r. is_get r \<and> via r = s) st (snd (get_paginated_data fuel serve key s u st))"
  unfolding get_paginated_data_def by (rule grows_by_paginate) simp_all

lemma grows_by_get_organization_repositories:
  "grows_by (\<lambda>r. is_get r \<and> via r = s) st (snd (get_organization_repositories fuel serve org s st))"
  unfolding get_organization_repositories_def
  by (rule grows_by_and_then)
     (use grows_by_get_paginated_data[of s "logger INFO (''Fetching repositories for organization: '' @ org) st"] in auto)

lemma grows_by_build_target_repo_mapping:
  "grows_by (\<lambda>r. is_get r \<and> via r = Target) st (snd (build_target_repo_mapping fuel serve st))"
  unfolding build_target_repo_mapping_def
  apply (cases "target_repo_mapping st \<noteq> []")
   apply simp
  apply (simp only: if_False)
  apply (rule grows_by_and_then)
  using grows_by_get_organization_repositories[of Target "logger INFO ''Building target organization repository mapping...'' st"]
   apply simp
  apply (auto split: prod.splits option.splits)
  done

lemma grows_by_get_target_repository_ids:
  "grows_by (\<lambda>r. is_get r \<and> via r = Target) st (snd (get_target_repository_ids fuel serve names st))"
  unfolding get_target_repository_ids_def
  by (rule grows_by_and_then) (auto intro: grows_by_build_target_repo_mapping)

lemma grows_by_set_selected_repositories:
  "grows_by (\<lambda>r. is_get r \<and> via r = Target) st
     (snd (set_selected_repositories fuel serve what name visibility names data st))"
proof (cases "visibility = ''selected'' \<and> names \<noteq> []")
  case True
  have "grows_by (\<lambda>r. is_get r \<and> via r = Target) st
     (snd (and_then (get_target_repository_ids fuel serve names st)
                  (\<lambda>target_repo_ids st1.
                      if target_repo_ids \<noteq> []
                      then (Ok (AList.update ''selected_repository_ids''
                                 (JList target_repo_ids) data), st1)
                      else (Ok (AList.update ''visibility'' (JStr ''private'') data),
                            logger WARNING
                             (''No valid repositories found for '' @ what @ '' '' @ name @
                              '', setting visibility to '' @ quoted ''private'') st1))))"
    by (rule grows_by_and_then) (auto intro: grows_by_get_target_repository_ids)
  then show ?thesis using True by (simp add: set_selected_repositories_def)
next
  case False
  then show ?thesis by (auto simp: set_selected_repositories_def)
qed

lemma grows_by_check_organization_secret_exists:
  "grows_by (\<lambda>r. is_get r \<and> via r = s) st
     (snd (check_organization_secret_exists serve org name s st))"
  unfolding check_organization_secret_exists_def
  apply (rule grows_by_and_then)
  using grows_by_make_request[of "\<lambda>r. is_get r \<and> via r = s" _ "logger l m st" for l m]
   apply (simp add: is_get_def)
  apply simp
  done

lemma grows_by_get_organization_public_key:
  "grows_by (\<lambda>r. is_get r \<and> via r = s) st
     (snd (get_organization_public_key serve org s st))"
  unfolding get_organization_public_key_def
  apply (cases "map_of (org_public_key_cache st) org")
   apply (simp only: option.case)
   apply (rule grows_by_and_then)
    apply (rule grows_by_make_request)
    apply (simp add: is_get_def)
   apply (simp split: option.splits)
  apply simp
  done


lemma sent_eq: "trace st1 = trace st @ rs \<Longrightarrow> sent st st1 = rs"
  by (simp add: sent_def)

lemma writes_all:
  "list_all (\<lambda>r. is_get r \<or> Q r) rs \<Longrightarrow> list_all Q (writes rs)"
  by (auto simp: writes_def list_all_iff is_get_def)

lemma grows_by_put_organization_secret:
  assumes put: "\<And>k ev kid data st3 st4.
      encrypt v k = Some ev \<Longrightarrow>
      set_selected_repositories fuel serve ''secret'' name visibility names
        [(''encrypted_value'', JStr ev), (''key_id'', kid), (''visibility'', JStr visibility)] st3
        = (Ok data, st4) \<Longrightarrow>
      P \<lparr>via = s, http_method = ''PUT'',
         url = org_secret_url org name,
         params = [], payload = Some (JDict data)\<rparr>"
    and get: "\<And>r. is_get r \<Longrightarrow> via r = s \<or> via r = Target \<Longrightarrow> P r"
  shows "grows_by P st
     (snd (put_organization_secret fuel serve encrypt org name v visibility names s st))"
proof -
  have A: "grows_by P a b" if "grows_by (\<lambda>r. is_get r \<and> via r = s) a b" for a b :: "'a migrator"
    using that get by (auto elim: grows_by_mono)
  have B: "grows_by P a b" if "grows_by (\<lambda>r. is_get r \<and> via r = Target) a b" for a b :: "'a migrator"
    using that get by (auto elim: grows_by_mono)
  note key = A[OF grows_by_get_organization_public_key]
  note sel = B[OF grows_by_set_selected_repositories]
  show ?thesis
    unfolding put_organization_secret_def
    apply (rule grows_by_and_then)
     apply (rule key)
    apply (auto split: option.splits sum.splits
                intro!: grows_by_and_then sel grows_by_make_request intro: put)
    done
qed

lemma grows_by_create_organization_secret:
  assumes put: "\<And>k ev kid data st3 st4.
      encrypt (if no_actual_value v then placeholder_value else v) k = Some ev \<Longrightarrow>
      set_selected_repositories fuel serve ''secret'' name visibility names
        [(''encrypted_value'', JStr ev), (''key_id'', kid), (''visibility'', JStr visibility)] st3
        = (Ok data, st4) \<Longrightarrow>
      P \<lparr>via = s, http_method = ''PUT'',
         url = org_secret_url org name,
         params = [], payload = Some (JDict data)\<rparr>"
    and get: "\<And>r. is_get r \<Longrightarrow> via r = s \<or> via r = Target \<Longrightarrow> P r"
  shows "grows_by P st
     (snd (create_organization_secret fuel serve encrypt org name v visibility names s cp st))"
proof -
  have chk: "grows_by P st (snd (check_organization_secret_exists serve org name s st))"
    using grows_by_check_organization_secret_exists[of s st serve org name] get
    by (auto elim: grows_by_mono)
  have p1: "grows_by P a (snd (put_organization_secret fuel serve encrypt org name
              (if no_actual_value v then placeholder_value else v) visibility names s a))"
    for a :: "'a migrator"
    by (rule grows_by_put_organization_secret) (use put get in blast)+
  have p2: "grows_by P a (snd (put_organization_secret fuel serve encrypt org name
              (if no_actual_value v then placeholder_value else v) visibility names s
              (logger l m a)))"
    for a :: "'a migrator" and l m
    using p1[of "logger l m a"] by simp
  show ?thesis
    unfolding create_organization_secret_def
    apply (rule grows_by_and_then)
     apply (rule chk)
    apply (cases "no_actual_value v")
    using p1 p2 by auto
qed

lemma put_organization_secret_success:
  assumes "fst (put_organization_secret fuel serve encrypt org name v visibility names s st)
             = Ok (Some True)"
  obtains info k ev kid data st3 st4 r st5 where
    "get_organization_public_key serve org s st = (Ok (Some info), st3)"
    "subscript info ''key'' = Inr k" "encrypt v k = Some ev"
    "subscript info ''key_id'' = Inr kid"
    "set_selected_repositories fuel serve ''secret'' name visibility names
       [(''encrypted_value'', JStr ev), (''key_id'', kid), (''visibility'', JStr visibility)] st3
       = (Ok data, st4)"
    "make_request serve \<lparr>via = s, http_method = ''PUT'', url = org_secret_url org name,
         params = [], payload = Some (JDict data)\<rparr> st4 = (Ok r, st5)"
    "status_code r = 201 \<or> status_code r = 204"
    "snd (put_organization_secret fuel serve encrypt org name v visibility names s st)
       = logger INFO (''Created/Updated'' @ (if v = placeholder_value then '' [PLACEHOLDER]'' else [])
            @ '' organization secret: '' @ name @ visibility_info visibility names) st5"
  using assms unfolding put_organization_secret_def and_then_def
  by (auto split: prod.splits outcome.splits option.splits sum.splits if_splits)

lemma create_organization_secret_success:
  assumes ok: "fst (create_organization_secret fuel serve encrypt org name v visibility names s cp st)
             = Ok (Some True)"
  obtains st1 st2 where
    "check_organization_secret_exists serve org name s st = (Ok False, st1)"
    "trace st2 = trace st1" "world st2 = world st1"
    "fst (put_organization_secret fuel serve encrypt org name
            (if no_actual_value v then placeholder_value else v) visibility names s st2)
       = Ok (Some True)"
    "snd (create_organization_secret fuel serve encrypt org name v visibility names s cp st)
       = snd (put_organization_secret fuel serve encrypt org name
            (if no_actual_value v then placeholder_value else v) visibility names s st2)"
    "no_actual_value v \<longrightarrow> cp"
proof -
  obtain st1 where chk: "check_organization_secret_exists serve org name s st = (Ok False, st1)"
    using ok unfolding create_organization_secret_def and_then_def
    by (auto split: prod.splits outcome.splits if_splits)
  show thesis
  proof (cases "no_actual_value v")
    case True
    let ?st2 = "logger INFO (''Creating secret '' @ name
                   @ '' with placeholder value (to be set manually later)'') st1"
    have cp: cp using ok chk True
      by (cases cp) (auto simp: create_organization_secret_def)
    have eq: "create_organization_secret fuel serve encrypt org name v visibility names s cp st
         = put_organization_secret fuel serve encrypt org name placeholder_value visibility names s ?st2"
      using chk True cp by (simp add: create_organization_secret_def)
    show thesis
      by (rule that[of st1 ?st2]) (use chk True cp ok eq in simp_all)
  next
    case False
    have eq: "create_organization_secret fuel serve encrypt org name v visibility names s cp st
         = put_organization_secret fuel serve encrypt org name v visibility names s st1"
      using chk False by (simp add: create_organization_secret_def)
    show thesis
      by (rule that[of st1 st1]) (use chk False ok eq in simp_all)
  qed
qed

lemmas url_defs = org_repos_url_def org_secret_url_def org_public_key_url_def
  org_variables_url_def org_variable_url_def base_url_def

lemmas run_defs = create_organization_secret_def put_organization_secret_def
  check_organization_secret_exists_def get_organization_public_key_def
  set_selected_repositories_def get_target_repository_ids_def build_target_repo_mapping_def
  get_organization_repositories_def get_paginated_data_def paginate.simps
  create_organization_variable_def update_organization_variable_def
  make_request_def handle_rate_limit_def fromtimestamp_def datetime_now_def rest_store_def answer_def logger_def
  init_migrator_def target_world_def toy_seal_def page_request_def
  no_actual_value_def encrypted_marker_def placeholder_value_def strip_def is_space_def
  visibility_info_def quoted_def found_ids_def missing_repos_def per_page_def
  sent_def writes_def List.map_filter_def

lemma make_request_Ok:
  "make_request serve req st = (Ok r, st1) \<Longrightarrow>
     world st1 = snd (serve (world st) req) \<and> trace st1 = trace st @ [req]
     \<and> fst (serve (world st) req) = Some r"
  by (cases "serve (world st) req"; cases "fst (serve (world st) req)")
     (auto simp: make_request_def)






lemma set_selected_keeps:
  assumes "set_selected_repositories fuel serve what name vis names data st = (Ok data', st')"
    and "k \<noteq> ''selected_repository_ids''" and "k \<noteq> ''visibility''"
  shows "map_of data' k = map_of data k"
  using assms unfolding set_selected_repositories_def and_then_def
  by (auto split: if_splits prod.splits outcome.splits simp: update_conv')


lemma writes_gets:
  "list_all is_get gs \<Longrightarrow> http_method r \<noteq> ''GET'' \<Longrightarrow> writes (gs @ [r]) = [r]"
  by (auto simp: writes_def list_all_iff is_get_def)

lemma create_organization_secret_success_writes:
  assumes ok: "fst (create_organization_secret fuel serve encrypt org name v vis names s cp st)
             = Ok (Some True)"
  obtains k ev data where
    "encrypt (if no_actual_value v then placeholder_value else v) k = Some ev"
    "map_of data ''encrypted_value'' = Some (JStr ev)"
    "writes (sent st (snd (create_organization_secret fuel serve encrypt org name v vis names s
        cp st)))
      = [\<lparr>via = s, http_method = ''PUT'', url = org_secret_url org name, params = [],
          payload = Some (JDict data)\<rparr>]"
    "last (log (snd (create_organization_secret fuel serve encrypt org name v vis names s cp st)))
      = (INFO, ''Created/Updated''
            @ (if (if no_actual_value v then placeholder_value else v) = placeholder_value
               then '' [PLACEHOLDER]'' else [])
            @ '' organization secret: '' @ name @ visibility_info vis names)"
proof -
  let ?v = "if no_actual_value v then placeholder_value else v"
  let ?put = "\<lambda>data. \<lparr>via = s, http_method = ''PUT'', url = org_secret_url org name, params = [],
          payload = Some (JDict data)\<rparr>"
  from ok obtain st1 st2 where
    chk: "check_organization_secret_exists serve org name s st = (Ok False, st1)"
    and t2: "trace st2 = trace st1"
    and p: "fst (put_organization_secret fuel serve encrypt org name ?v vis names s st2)
              = Ok (Some True)"
    and e: "snd (create_organization_secret fuel serve encrypt org name v vis names s cp st)
       = snd (put_organization_secret fuel serve encrypt org name ?v vis names s st2)"
    by (rule create_organization_secret_success)
  from p obtain info k ev kid data st3 st4 r st5 where
    key: "get_organization_public_key serve org s st2 = (Ok (Some info), st3)"
    and enc: "encrypt ?v k = Some ev"
    and sel: "set_selected_repositories fuel serve ''secret'' name vis names
       [(''encrypted_value'', JStr ev), (''key_id'', kid), (''visibility'', JStr vis)] st3
       = (Ok data, st4)"
    and mr: "make_request serve (?put data) st4 = (Ok r, st5)"
    and f: "snd (put_organization_secret fuel serve encrypt org name ?v vis names s st2)
       = logger INFO (''Created/Updated'' @ (if ?v = placeholder_value then '' [PLACEHOLDER]'' else [])
            @ '' organization secret: '' @ name @ visibility_info vis names) st5"
    by (rule put_organization_secret_success)
  have g1: "grows_by is_get st st1"
    using grows_by_check_organization_secret_exists[of s st serve org name] chk
    by (auto elim: grows_by_mono)
  have g2: "grows_by is_get st2 st3"
    using grows_by_get_organization_public_key[of s st2 serve org] key
    by (auto elim: grows_by_mono)
  have "grows_by (\<lambda>r. is_get r \<and> via r = Target) st3
     (snd (set_selected_repositories fuel serve ''secret'' name vis names
       [(''encrypted_value'', JStr ev), (''key_id'', kid), (''visibility'', JStr vis)] st3))"
    by (rule grows_by_set_selected_repositories)
  then have g3: "grows_by is_get st3 st4"
    using sel by (auto elim: grows_by_mono)
  from g1 g2 g3 t2 obtain gs where gs: "trace st4 = trace st @ gs" "list_all is_get gs"
    by (auto simp: grows_by_def)
  have t5: "trace st5 = trace st @ gs @ [?put data]"
    using make_request_Ok[OF mr] gs by simp
  have w: "writes (sent st (snd (create_organization_secret fuel serve encrypt org name v vis
        names s cp st))) = [?put data]"
    unfolding e f using t5 gs(2) by (simp add: sent_def writes_gets)
  have d: "map_of data ''encrypted_value'' = Some (JStr ev)"
    using set_selected_keeps[OF sel, of "''encrypted_value''"] by simp
  show thesis
    by (rule that[OF enc d w]) (simp add: e f)
qed

text \<open>
  C9. An organization secret or variable with visibility \<^verbatim>\<open>selected\<close> and an empty name
  list: whatever the target answers, every write the secret import sends carries
  visibility \<^verbatim>\<open>selected\<close> and no \<^verbatim>\<open>selected_repository_ids\<close> field, and an import that
  succeeds has sent one; the variable import sends a POST, and after it at most a PATCH,
  both with exactly the three fields name, value and visibility \<^verbatim>\<open>selected\<close>. The branch
  that translates the names and downgrades the visibility is not entered: the payload
  and the state come back as they were.
\<close>

theorem selected_without_names:
  "set_selected_repositories fuel serve what name ''selected'' [] data st'' = (Ok data, st'')
   \<and> list_all (\<lambda>r. payload_field ''visibility'' r = Some (JStr ''selected'')
                \<and> payload_field ''selected_repository_ids'' r = None)
     (writes (sent st (snd (create_organization_secret fuel serve encrypt org name v
                              ''selected'' [] s cp st))))
   \<and> (fst (create_organization_secret fuel serve encrypt org name v ''selected'' [] s cp st)
        = Ok (Some True) \<longrightarrow>
      writes (sent st (snd (create_organization_secret fuel serve encrypt org name v
                              ''selected'' [] s cp st))) \<noteq> [])
   \<and> (sent st' (snd (create_organization_variable fuel serve org name v ''selected'' [] s st'))
        = [\<lparr>via = s, http_method = ''POST'', url = org_variables_url org, params = [],
             payload = Some (JDict [(''name'', JStr name), (''value'', JStr v),
                                    (''visibility'', JStr ''selected'')])\<rparr>]
      \<or> sent st' (snd (create_organization_variable fuel serve org name v ''selected'' [] s st'))
        = [\<lparr>via = s, http_method = ''POST'', url = org_variables_url org, params = [],
             payload = Some (JDict [(''name'', JStr name), (''value'', JStr v),
                                    (''visibility'', JStr ''selected'')])\<rparr>,
           \<lparr>via = s, http_method = ''PATCH'', url = org_variable_url org name, params = [],
             payload = Some (JDict [(''name'', JStr name), (''value'', JStr v),
                                    (''visibility'', JStr ''selected'')])\<rparr>])"
proof (intro conjI impI)
  show "set_selected_repositories fuel serve what name ''selected'' [] data st'' = (Ok data, st'')"
    by (rule set_selected_empty)
next
  let ?Q = "\<lambda>r. payload_field ''visibility'' r = Some (JStr ''selected'')
                \<and> payload_field ''selected_repository_ids'' r = None"
  have "grows_by (\<lambda>r. is_get r \<or> ?Q r) st
     (snd (create_organization_secret fuel serve encrypt org name v ''selected'' [] s cp st))"
    by (rule grows_by_create_organization_secret)
       (auto simp: set_selected_empty payload_field_def)
  then show "list_all ?Q (writes (sent st (snd (create_organization_secret fuel serve encrypt
      org name v ''selected'' [] s cp st))))"
    by (intro writes_all grows_by_sent)
next
  assume "fst (create_organization_secret fuel serve encrypt org name v ''selected'' [] s cp st)
        = Ok (Some True)"
  then show "writes (sent st (snd (create_organization_secret fuel serve encrypt org name v
                              ''selected'' [] s cp st))) \<noteq> []"
    by (rule create_organization_secret_success_writes) simp
next
  let ?d = "[(''name'', JStr name), (''value'', JStr v), (''visibility'', JStr ''selected'')]"
  let ?post = "\<lparr>via = s, http_method = ''POST'', url = org_variables_url org, params = [],
             payload = Some (JDict ?d)\<rparr>"
  let ?patch = "\<lparr>via = s, http_method = ''PATCH'', url = org_variable_url org name, params = [],
             payload = Some (JDict ?d)\<rparr>"
  let ?run = "snd (create_organization_variable fuel serve org name v ''selected'' [] s st')"
  show "sent st' ?run = [?post] \<or> sent st' ?run = [?post, ?patch]"
  proof (cases rule: make_request_cases[of serve ?post st'])
    case (1 st1)
    then show ?thesis
      by (simp add: create_organization_variable_def set_selected_empty sent_eq)
  next
    case (2 r st1)
    show ?thesis
    proof (cases "status_code r = 409")
      case False
      then show ?thesis using 2
        by (simp add: create_organization_variable_def set_selected_empty sent_eq)
    next
      case True
      let ?st2 = "logger INFO (''Organization variable already exists, updating: '' @ name) st1"
      have t: "trace ?st2 = trace st' @ [?post]" using 2 by simp
      have "sent st' ?run = [?post, ?patch]"
      proof (cases rule: make_request_cases[of serve ?patch ?st2])
        case (1 st3)
        then show ?thesis using 2 True t
          by (simp add: create_organization_variable_def update_organization_variable_def
                set_selected_empty sent_eq)
      next
        case (2 r' st3)
        then show ?thesis using \<open>make_request serve ?post st' = (Ok r, st1)\<close> True t
          by (simp add: create_organization_variable_def update_organization_variable_def
                set_selected_empty sent_eq)
      qed
      then show ?thesis by simp
    qed
  qed
qed


theorem selected_without_names_witness:
  "writes (sent (init_migrator target_world 0)
       (snd (create_organization_secret 1 rest_store toy_seal ''tgt-org'' ''TOKEN''
               ''[ENCRYPTED_SECRET_VALUE]'' ''selected'' [] Target True
               (init_migrator target_world 0))))
     = [\<lparr>via = Target, http_method = ''PUT'', url = org_secret_url ''tgt-org'' ''TOKEN'',
          params = [],
          payload = Some (JDict [(''encrypted_value'',
                                   JStr ''sealed:PLACEHOLDER_VALUE_SET_MANUALLY''),
                                  (''key_id'', JStr ''k1''),
                                  (''visibility'', JStr ''selected'')])\<rparr>]
   \<and> sent (init_variables_migrator target_world 0)
       (snd (create_organization_variable 1 rest_store ''tgt-org'' ''API_KEY'' ''v1''
               ''selected'' [] Target (init_variables_migrator target_world 0)))
     = [\<lparr>via = Target, http_method = ''POST'', url = org_variables_url ''tgt-org'',
          params = [],
          payload = Some (JDict [(''name'', JStr ''API_KEY''), (''value'', JStr ''v1''),
                                  (''visibility'', JStr ''selected'')])\<rparr>]"
  using selected_without_names [of 1 rest_store "''secret''" "''TOKEN''" "[]"
      "init_migrator target_world 0" "init_migrator target_world 0" toy_seal "''tgt-org''"
      "''[ENCRYPTED_SECRET_VALUE]''" Target True "init_variables_migrator target_world 0"]
  by (simp add: run_defs url_defs init_variables_migrator_def org_variables_url_def Let_def)




section \<open>Properties of the webhook import\<close>

lemma calls_logger [simp]: "calls (logger l m st) = calls st"
  by (simp add: logger_def)

lemma migration_results_logger [simp]: "migration_results (logger l m st) = migration_results st"
  by (simp add: logger_def)

lemma calls_add_migration_result [simp]:
  "calls (add_migration_result a b c d e f g h st) = calls st"
  by (simp add: add_migration_result_def)

lemma world_add_migration_result [simp]:
  "world (add_migration_result a b c d e f g h st) = world st"
  by (simp add: add_migration_result_def)

lemma migration_results_add_migration_result [simp]:
  "migration_results (add_migration_result a b c d e f g h st)
     = migration_results st @
         [[(''source_org'', JStr a), (''source_repo'', JStr c), (''target_org'', JStr b),
           (''target_repo'', JStr d), (''webhook_url'', e), (''events'', f),
           (''status'', JStr g), (''reason'', JStr h),
           (''migration_date'', JStr ''%Y-%m-%d %H:%M:%S'')]]"
  by (simp add: add_migration_result_def)

lemma import_hooks_complete:
  "import_hooks gh src_org tgt_org source_repo target_repo target_gh_repo existing webhooks st
     = (Ok u, st') \<Longrightarrow>
   calls st' = calls st
       @ map (create_call target_gh_repo)
           (filter (\<lambda>webhook. \<not> in_set (webhook_field ''url'' webhook) existing) webhooks)
   \<and> (\<exists>rs. migration_results st' = migration_results st @ rs
          \<and> list_all2 (status_fits existing) webhooks
               (map (\<lambda>result. (dict_get result ''webhook_url'' JNull,
                                dict_get result ''status'' JNull)) rs))"
proof (induction webhooks arbitrary: st)
  case Nil
  then show ?case by simp
next
  case (Cons webhook webhooks)
  from Cons.prems obtain webhook_url where url: "subscript webhook ''url'' = Inr webhook_url"
    by (cases "subscript webhook ''url''") auto
  from Cons.prems url have h: "hashable webhook_url"
    by (cases "hashable webhook_url") auto
  from Cons.prems url h obtain evs where evs: "subscript webhook ''events'' = Inr evs"
    by (cases "subscript webhook ''events''"; cases "in_set webhook_url existing";
        cases "subscript webhook ''content_type''"; cases "subscript webhook ''insecure_ssl''")
       auto
  show ?case
  proof (cases "in_set webhook_url existing")
    case True
    let ?st1 = "add_migration_result src_org tgt_org source_repo target_repo webhook_url
                  evs ''SKIPPED'' ''Webhook already exists in target''
                  (logger WARNING ''Webhook already exists in target: {webhook_url}'' st)"
    have run: "import_hooks gh src_org tgt_org source_repo target_repo target_gh_repo existing
                 webhooks ?st1 = (Ok u, st')"
      using Cons.prems url h evs True by simp
    from Cons.IH[OF run] obtain rs where
      c: "calls st' = calls ?st1 @ map (create_call target_gh_repo)
           (filter (\<lambda>webhook. \<not> in_set (webhook_field ''url'' webhook) existing) webhooks)"
      and r: "migration_results st' = migration_results ?st1 @ rs"
      and f: "list_all2 (status_fits existing) webhooks
               (map (\<lambda>result. (dict_get result ''webhook_url'' JNull,
                                dict_get result ''status'' JNull)) rs)"
      by blast
    have wf: "webhook_field ''url'' webhook = webhook_url"
      using url by (simp add: webhook_field_def)
    have hd: "status_fits existing webhook (webhook_url, JStr ''SKIPPED'')"
      using True wf by (simp add: status_fits_def)
    show ?thesis
      apply (intro conjI)
       apply (use c True wf in simp)
      apply (rule exI[of _ "drop (length (migration_results st)) (migration_results st')"])
      using r f hd by (simp add: dict_get_def)
  next
    case False
    from Cons.prems url h False obtain content_type insecure_ssl act where
      ct: "subscript webhook ''content_type'' = Inr content_type"
      and ssl: "subscript webhook ''insecure_ssl'' = Inr insecure_ssl"
      and act: "subscript webhook ''active'' = Inr act"
      by (cases "subscript webhook ''content_type''"; cases "subscript webhook ''insecure_ssl''";
          cases "subscript webhook ''events''"; cases "subscript webhook ''active''") auto
    let ?cfg = "[(''url'', webhook_url), (''content_type'', content_type),
                 (''insecure_ssl'', insecure_ssl)]"
    let ?c = "(fst target_gh_repo, Create_hook (snd target_gh_repo) ''web'' ?cfg evs act)"
    have cc: "create_call target_gh_repo webhook = ?c"
      using url ct ssl evs act by (simp add: create_call_def webhook_field_def)
    have wf: "webhook_field ''url'' webhook = webhook_url"
      using url by (simp add: webhook_field_def)
    obtain e w where cr: "create_hook gh (world st) (fst target_gh_repo) (snd target_gh_repo)
                             ''web'' ?cfg evs act = (e, w)"
      by (cases "create_hook gh (world st) (fst target_gh_repo) (snd target_gh_repo)
                             ''web'' ?cfg evs act")
    from Cons.prems url h False ct ssl evs act cr
    obtain status reason l m where
      run: "import_hooks gh src_org tgt_org source_repo target_repo target_gh_repo existing
                 webhooks
                 (add_migration_result src_org tgt_org source_repo target_repo webhook_url
                    evs status reason
                    (logger l m (st\<lparr>world := w, calls := calls st @ [?c]\<rparr>))) = (Ok u, st')"
      and st: "status = ''SUCCESS'' \<or> status = ''FAILED''"
      by (cases e) (auto simp: Let_def split: if_splits)
    from Cons.IH[OF run] obtain rs where
      c: "calls st' = (calls st @ [?c]) @ map (create_call target_gh_repo)
           (filter (\<lambda>webhook. \<not> in_set (webhook_field ''url'' webhook) existing) webhooks)"
      and r: "migration_results st' = (migration_results st @
         [[(''source_org'', JStr src_org), (''source_repo'', JStr source_repo),
           (''target_org'', JStr tgt_org),
           (''target_repo'', JStr target_repo), (''webhook_url'', webhook_url),
           (''events'', evs), (''status'', JStr status), (''reason'', JStr reason),
           (''migration_date'', JStr ''%Y-%m-%d %H:%M:%S'')]]) @ rs"
      and f: "list_all2 (status_fits existing) webhooks
               (map (\<lambda>result. (dict_get result ''webhook_url'' JNull,
                                dict_get result ''status'' JNull)) rs)"
      by auto
    have hd: "status_fits existing webhook (webhook_url, JStr status)"
      using False wf st by (auto simp: status_fits_def)
    show ?thesis
      apply (intro conjI)
       apply (use c False wf cc in simp)
      apply (rule exI[of _ "drop (length (migration_results st)) (migration_results st')"])
      using r f hd by (simp add: dict_get_def)
  qed
qed


lemma calls_generate_csv_report [simp]: "calls (generate_csv_report st) = calls st"
  by (simp add: generate_csv_report_def Let_def)

lemma migration_results_generate_csv_report [simp]:
  "migration_results (generate_csv_report st) = migration_results st"
  by (simp add: generate_csv_report_def Let_def)

text \<open>
  C10. The import of the webhooks exported for one repository, when the target repository
  is found, its hooks are listed and the import completes: the hooks it asks the target to
  create are exactly those of the exported webhooks whose URL is not the URL of a hook of
  the target, in order; and it adds one result per exported webhook, \<^verbatim>\<open>SKIPPED\<close> when
  the URL is that of a hook of the target, \<^verbatim>\<open>SUCCESS\<close> or \<^verbatim>\<open>FAILED\<close> otherwise. Of the
  target's hooks only the URLs enter: their events, content type, SSL setting and active
  flag are not read.
\<close>

theorem webhook_dedup_by_url:
  assumes repo: "get_repo gh (world st) Target (tgt_org @ ''/'' @ target_repo) = (None, w1)"
    and hooks: "get_hooks gh w1 Target (tgt_org @ ''/'' @ target_repo) = (Inr hooks, w2)"
    and ok: "fst (import_webhooks gh src_org tgt_org [(source_repo, target_repo, webhooks)] st)
               = Ok ()"
  shows "filter is_create
           (new_calls st (snd (import_webhooks gh src_org tgt_org
                                 [(source_repo, target_repo, webhooks)] st)))
         = map (create_call (Target, tgt_org @ ''/'' @ target_repo))
             (filter (\<lambda>webhook. \<not> in_set (webhook_field ''url'' webhook) (hook_urls hooks))
                webhooks)
       \<and> list_all2 (status_fits (hook_urls hooks)) webhooks
           (new_results st (snd (import_webhooks gh src_org tgt_org
                                   [(source_repo, target_repo, webhooks)] st)))"
proof (cases "webhooks = []")
  case True
  then show ?thesis
    by (simp add: import_webhooks_def new_calls_def new_results_def)
next
  case False
  let ?full = "tgt_org @ ''/'' @ target_repo"
  let ?st0 = "logger INFO ''Import file created on: {export_date}''
                (logger INFO ''Starting webhook import process...'' st)"
  let ?st1 = "logger INFO (''Repository found: '' @ ?full)
                ((logger INFO (''Fetching repository: '' @ ?full) ?st0)
                   \<lparr>world := w1,
                     calls := calls st @ [(Target, Get_repo ?full)]\<rparr>)"
  let ?st2 = "?st1\<lparr>world := w2,
                    calls := calls st @ [(Target, Get_repo ?full), (Target, Get_hooks ?full)]\<rparr>"
  let ?st2' = "logger INFO (''Importing '' @ str_nat (length webhooks) @ '' webhooks to ''
                              @ target_repo) ?st2"
  have gr: "get_repository gh Target tgt_org target_repo ?st0
              = (Ok (Some (Target, ?full)), ?st1)"
    using repo by (simp add: get_repository_def Let_def)
  have gh: "get_hooks gh (world ?st1) Target ?full = (Inr hooks, w2)"
    using hooks by simp
  obtain r st3 where ih: "import_hooks gh src_org tgt_org source_repo target_repo
      (Target, ?full) (hook_urls hooks) webhooks ?st2' = (r, st3)"
    by (cases "import_hooks gh src_org tgt_org source_repo target_repo
      (Target, ?full) (hook_urls hooks) webhooks ?st2'")
  have ir: "import_repositories gh src_org tgt_org [(source_repo, target_repo, webhooks)] ?st0
      = (if \<not> list_all hashable (hook_urls hooks) then (Raise TypeError, ?st2)
         else case r of Ok u \<Rightarrow> (Ok (), st3) | Raise e \<Rightarrow> (Raise e, st3)
                      | OutOfFuel \<Rightarrow> (OutOfFuel, st3))"
    using False gr gh ih by (cases r) (simp_all add: Let_def)
  from ok ir have hs: "list_all hashable (hook_urls hooks)" and r: "r = Ok ()"
    by (cases "list_all hashable (hook_urls hooks)"; cases r;
        simp add: import_webhooks_def)+
  have fin: "snd (import_webhooks gh src_org tgt_org [(source_repo, target_repo, webhooks)] st)
      = logger INFO ''Webhook import process finished.'' (generate_csv_report st3)"
    using ir hs r by (simp add: import_webhooks_def)
  from import_hooks_complete[OF ih[unfolded r]] obtain rs where
    c: "calls st3 = calls ?st2' @ map (create_call (Target, ?full))
           (filter (\<lambda>webhook. \<not> in_set (webhook_field ''url'' webhook) (hook_urls hooks))
              webhooks)"
    and m: "migration_results st3 = migration_results ?st2' @ rs"
    and f: "list_all2 (status_fits (hook_urls hooks)) webhooks
               (map (\<lambda>result. (dict_get result ''webhook_url'' JNull,
                                dict_get result ''status'' JNull)) rs)"
    by blast
  have cr: "filter is_create (map (create_call (Target, ?full)) ws)
              = map (create_call (Target, ?full)) ws" for ws
    by (induction ws) (simp_all add: create_call_def)
  show ?thesis
    unfolding fin using c m f cr
    by (simp add: new_calls_def new_results_def)
qed

theorem webhook_dedup_by_url_witness:
  "filter is_create
     (new_calls (init_webhook_migrator demo_target)
        (snd (import_webhooks hook_store ''src-org'' ''tgt-org''
                [(''svc-a'', ''svc-a'', demo_webhooks)] (init_webhook_migrator demo_target))))
     = [(Target,
         Create_hook ''tgt-org/svc-a'' ''web''
           [(''url'', JStr ''https://chat.example/hook''), (''content_type'', JStr ''json''),
            (''insecure_ssl'', JStr ''0'')]
           (JList [JStr ''push'']) (JBool True))]
   \<and> new_results (init_webhook_migrator demo_target)
        (snd (import_webhooks hook_store ''src-org'' ''tgt-org''
                [(''svc-a'', ''svc-a'', demo_webhooks)] (init_webhook_migrator demo_target)))
     = [(JStr ''https://ci.example/hook'', JStr ''SKIPPED''),
        (JStr ''https://chat.example/hook'', JStr ''SUCCESS'')]"
  using webhook_dedup_by_url [of hook_store "init_webhook_migrator demo_target" "''tgt-org''"
      "''svc-a''" demo_target "the (map_of demo_target ''tgt-org/svc-a'')" demo_target
      "''src-org''" "''svc-a''" demo_webhooks]
  by (simp add: import_webhooks_def get_repository_def hook_store_def
        init_webhook_migrator_def demo_target_def demo_webhooks_def hook_urls_def in_set_def
        new_calls_def new_results_def add_migration_result_def logger_def
        generate_csv_report_def joinable_def dict_get_def create_call_def webhook_field_def
        status_fits_def Let_def)

end
